theory Spec2Isabelle
  imports Complex_Main "HOL-Library.Sublist"
begin

section \<open>NumPy float64 values\<close>

text \<open>
  The program computes with NumPy float64 arrays and pandas Series. NumPy arithmetic never
  raises on a division by zero: it yields an infinity or a NaN (with a warning) and goes on.
  A float is therefore modelled with its IEEE 754 special values written out. Finite values
  are exact reals: rounding, overflow and underflow of float64 are not modelled.
  \<open>Fin 0\<close> is \<open>+0.0\<close> and \<open>NegZero\<close> is \<open>-0.0\<close>; \<open>Fin\<close> never carries \<open>-0.0\<close>.
\<close>

datatype npf = Fin real | NegZero | PInf | NInf | NaN

fun is_nan :: "npf \<Rightarrow> bool" where
  "is_nan NaN = True"
| "is_nan _ = False"

fun is_inf :: "npf \<Rightarrow> bool" where
  "is_inf PInf = True"
| "is_inf NInf = True"
| "is_inf _ = False"

fun is_zero :: "npf \<Rightarrow> bool" where
  "is_zero (Fin x) = (x = 0)"
| "is_zero NegZero = True"
| "is_zero _ = False"

fun signbit :: "npf \<Rightarrow> bool" where
  "signbit (Fin x) = (x < 0)"
| "signbit NegZero = True"
| "signbit NInf = True"
| "signbit _ = False"

fun the_fin :: "npf \<Rightarrow> real" where
  "the_fin (Fin x) = x"
| "the_fin _ = 0"

definition zero_s :: "bool \<Rightarrow> npf" where
  "zero_s neg = (if neg then NegZero else Fin 0)"

definition inf_s :: "bool \<Rightarrow> npf" where
  "inf_s neg = (if neg then NInf else PInf)"


fun np_neg :: "npf \<Rightarrow> npf" where
  "np_neg (Fin x) = (if x = 0 then NegZero else Fin (- x))"
| "np_neg NegZero = Fin 0"
| "np_neg PInf = NInf"
| "np_neg NInf = PInf"
| "np_neg NaN = NaN"

text \<open>Addition: \<open>inf + -inf\<close> is NaN; a sum that cancels is \<open>+0.0\<close>; \<open>-0.0 + -0.0 = -0.0\<close>.\<close>

definition np_add :: "npf \<Rightarrow> npf \<Rightarrow> npf" where
  "np_add a b =
     (if is_nan a \<or> is_nan b then NaN
      else if is_inf a \<and> is_inf b then (if signbit a = signbit b then a else NaN)
      else if is_inf a then a
      else if is_inf b then b
      else if a = NegZero \<and> b = NegZero then NegZero
      else Fin (the_fin a + the_fin b))"

definition np_sub :: "npf \<Rightarrow> npf \<Rightarrow> npf" where
  "np_sub a b = np_add a (np_neg b)"

text \<open>Multiplication: \<open>0 * inf\<close> is NaN; the sign of a zero or an infinity is the xor of the signs.\<close>

definition np_mul :: "npf \<Rightarrow> npf \<Rightarrow> npf" where
  "np_mul a b =
     (if is_nan a \<or> is_nan b then NaN
      else if (is_zero a \<and> is_inf b) \<or> (is_inf a \<and> is_zero b) then NaN
      else if is_inf a \<or> is_inf b then inf_s (signbit a \<noteq> signbit b)
      else if is_zero a \<or> is_zero b then zero_s (signbit a \<noteq> signbit b)
      else Fin (the_fin a * the_fin b))"

text \<open>
  True division of float arrays: \<open>0/0\<close> and \<open>inf/inf\<close> are NaN, \<open>x/0\<close> is a signed
  infinity, \<open>x/inf\<close> is a signed zero. Nothing is raised.
\<close>

definition np_div :: "npf \<Rightarrow> npf \<Rightarrow> npf" where
  "np_div a b =
     (if is_nan a \<or> is_nan b then NaN
      else if (is_zero a \<and> is_zero b) \<or> (is_inf a \<and> is_inf b) then NaN
      else if is_inf a \<or> is_zero b then inf_s (signbit a \<noteq> signbit b)
      else if is_zero a \<or> is_inf b then zero_s (signbit a \<noteq> signbit b)
      else Fin (the_fin a / the_fin b))"

text \<open>
  \<open>x ** n\<close> for a float base and an integer exponent (an int64 column or the literal 2):
  NumPy converts the exponent to float64 and calls C \<open>pow\<close>. \<open>pow(x, 0) = 1\<close> for every
  \<open>x\<close>, NaN included; \<open>pow(0, n)\<close> with \<open>n < 0\<close> is an infinity.
\<close>

definition np_power :: "npf \<Rightarrow> int \<Rightarrow> npf" where
  "np_power x n =
     (if n = 0 then Fin 1
      else if is_nan x then NaN
      else if is_zero x then
        (if n < 0 then inf_s (signbit x \<and> odd n) else zero_s (signbit x \<and> odd n))
      else if is_inf x then
        (if n < 0 then zero_s (signbit x \<and> odd n) else inf_s (signbit x \<and> odd n))
      else Fin (the_fin x powi n))"

text \<open>\<open>scipy.special.expit\<close>: the logistic sigmoid \<open>1 / (1 + exp (-x))\<close>.\<close>

fun expit :: "npf \<Rightarrow> npf" where
  "expit (Fin x) = Fin (1 / (1 + exp (- x)))"
| "expit NegZero = Fin (1 / 2)"
| "expit PInf = Fin 1"
| "expit NInf = Fin 0"
| "expit NaN = NaN"

text \<open>An int64 value used in float arithmetic is converted to float64.\<close>

definition of_i64 :: "int \<Rightarrow> npf" where
  "of_i64 i = Fin (of_int i)"

section \<open>Series and data frames\<close>

text \<open>
  A Series is the list of its values. The binary operators of two Series of one frame work
  elementwise; an operator with a scalar broadcasts the scalar.
\<close>

definition s_add :: "npf list \<Rightarrow> npf list \<Rightarrow> npf list" where
  "s_add xs ys = map2 np_add xs ys"

definition s_sub :: "npf list \<Rightarrow> npf list \<Rightarrow> npf list" where
  "s_sub xs ys = map2 np_sub xs ys"

definition s_mul :: "npf list \<Rightarrow> npf list \<Rightarrow> npf list" where
  "s_mul xs ys = map2 np_mul xs ys"

definition s_div :: "npf list \<Rightarrow> npf list \<Rightarrow> npf list" where
  "s_div xs ys = map2 np_div xs ys"

definition s_pow :: "npf list \<Rightarrow> int list \<Rightarrow> npf list" where
  "s_pow xs ns = map2 np_power xs ns"

text \<open>Scalar on the left (\<open>c + s\<close>, \<open>c - s\<close>, \<open>c * s\<close>, \<open>c / s\<close>, \<open>c ** s\<close>).\<close>

definition sc_add :: "npf \<Rightarrow> npf list \<Rightarrow> npf list" where
  "sc_add c xs = map (\<lambda>x. np_add c x) xs"

definition sc_sub :: "npf \<Rightarrow> npf list \<Rightarrow> npf list" where
  "sc_sub c xs = map (\<lambda>x. np_sub c x) xs"

definition sc_mul :: "npf \<Rightarrow> npf list \<Rightarrow> npf list" where
  "sc_mul c xs = map (\<lambda>x. np_mul c x) xs"

definition sc_div :: "npf \<Rightarrow> npf list \<Rightarrow> npf list" where
  "sc_div c xs = map (\<lambda>x. np_div c x) xs"

definition sc_pow :: "npf \<Rightarrow> int list \<Rightarrow> npf list" where
  "sc_pow c ns = map (\<lambda>n. np_power c n) ns"

text \<open>Scalar on the right (\<open>s + c\<close>, \<open>s * c\<close>, \<open>s ** n\<close>).\<close>

definition s_addc :: "npf list \<Rightarrow> npf \<Rightarrow> npf list" where
  "s_addc xs c = map (\<lambda>x. np_add x c) xs"

definition s_mulc :: "npf list \<Rightarrow> npf \<Rightarrow> npf list" where
  "s_mulc xs c = map (\<lambda>x. np_mul x c) xs"

definition s_powc :: "npf list \<Rightarrow> int \<Rightarrow> npf list" where
  "s_powc xs n = map (\<lambda>x. np_power x n) xs"

definition astype_float :: "int list \<Rightarrow> npf list" where
  "astype_float ns = map of_i64 ns"

text \<open>\<open>np.average\<close> without weights is the mean: the sum over the count; of nothing, NaN.\<close>

fun np_sum :: "npf list \<Rightarrow> npf" where
  "np_sum [] = Fin 0"
| "np_sum (x # xs) = foldl np_add x xs"

definition np_average :: "npf list \<Rightarrow> npf" where
  "np_average xs = np_div (np_sum xs) (Fin (real (length xs)))"

text \<open>
  One observation (a row of either dataset). \<open>colA\<close> and \<open>colY\<close> are int64 columns holding
  0, 1 or the sentinel -1; \<open>colR_A\<close> and \<open>colR_Y\<close> are int64 indicators; \<open>colW1\<close> and
  \<open>colW2\<close> are float64. A data frame is the list of its rows, so that all its columns have
  one length; \<open>data[c]\<close> is \<open>col c data\<close>, and a column name is the selector of the field.
\<close>

record unit_row =
  colA :: int
  colY :: int
  colW1 :: npf
  colW2 :: npf
  colR_A :: int
  colR_Y :: int

type_synonym dataframe = "unit_row list"

definition col :: "(unit_row \<Rightarrow> 'a) \<Rightarrow> dataframe \<Rightarrow> 'a list" where
  "col c data = map c data"

datatype py_error = IndexError | ValueError

definition getitem :: "'a list \<Rightarrow> nat \<Rightarrow> py_error + 'a" where
  "getitem xs i = (if i < length xs then Inr (xs ! i) else Inl IndexError)"

text \<open>A raised exception ends the function: the rest runs only on a value.\<close>

definition and_then :: "py_error + 'a \<Rightarrow> ('a \<Rightarrow> py_error + 'b) \<Rightarrow> py_error + 'b" where
  "and_then r f = (case r of Inl e \<Rightarrow> Inl e | Inr v \<Rightarrow> f v)"

section \<open>The estimating equations and the predictions\<close>

definition shadowIpwFunctional_Y ::
  "npf list \<Rightarrow> (unit_row \<Rightarrow> npf) \<Rightarrow> (unit_row \<Rightarrow> npf) \<Rightarrow> (unit_row \<Rightarrow> int) \<Rightarrow>
   (unit_row \<Rightarrow> int) \<Rightarrow> dataframe \<Rightarrow> py_error + npf list" where
  "shadowIpwFunctional_Y params W_1 W_2 R_Y Y data =
     and_then (getitem params 0) (\<lambda>p0.
     and_then (getitem params 1) (\<lambda>p1.
     and_then (getitem params 2) (\<lambda>p2.
     and_then (getitem params 3) (\<lambda>p3.
       (let pRY_Y_0 = map expit (sc_add p0 (sc_mul p1 (col W_2 data)));
            pRY_1 = s_div pRY_Y_0
                      (s_add pRY_Y_0
                         (s_mul (s_pow (sc_add p2 (sc_mul p3 (col W_2 data))) (col Y data))
                                (sc_sub (Fin 1) pRY_Y_0)));
            output1 = np_average
              (s_sub (s_div (s_mul (s_mul (col W_1 data) (col W_2 data))
                                   (astype_float (col R_Y data))) pRY_1)
                     (s_mul (col W_1 data) (col W_2 data)));
            output2 = np_average
              (s_sub (s_div (s_mul (s_addc (s_mul (col W_1 data) (col W_2 data)) (Fin 1))
                                   (astype_float (col R_Y data))) pRY_1)
                     (s_addc (s_mul (col W_1 data) (col W_2 data)) (Fin 1)));
            output3 = np_average
              (s_sub (s_div (s_mul (s_mul (col W_1 data) (s_powc (col W_2 data) 2))
                                   (astype_float (col R_Y data))) pRY_1)
                     (s_mul (col W_1 data) (s_powc (col W_2 data) 2)));
            output4 = np_average
              (s_sub (s_div (s_mul (s_addc (s_mul (col W_1 data) (s_powc (col W_2 data) 2)) (Fin 1))
                                   (astype_float (col R_Y data))) pRY_1)
                     (s_addc (s_mul (col W_1 data) (s_powc (col W_2 data) 2)) (Fin 1)))
        in Inr [output1, output2, output3, output4])))))"

definition rootsPrediction_Y ::
  "npf list \<Rightarrow> (unit_row \<Rightarrow> npf) \<Rightarrow> (unit_row \<Rightarrow> int) \<Rightarrow> dataframe \<Rightarrow> py_error + npf list" where
  "rootsPrediction_Y roots W_2 Y data =
     and_then (getitem roots 0) (\<lambda>r0.
     and_then (getitem roots 1) (\<lambda>r1.
     and_then (getitem roots 2) (\<lambda>r2.
     and_then (getitem roots 3) (\<lambda>r3.
       (let pRY_1_Y_0 = map expit (sc_add r0 (sc_mul r1 (col W_2 data)));
            predictions = s_div pRY_1_Y_0
                      (s_add pRY_1_Y_0
                         (s_mul (s_pow (sc_add r2 (sc_mul r3 (col W_2 data))) (col Y data))
                                (sc_sub (Fin 1) pRY_1_Y_0)))
        in Inr predictions)))))"

definition shadowIpwFunctional_A ::
  "npf list \<Rightarrow> (unit_row \<Rightarrow> npf) \<Rightarrow> (unit_row \<Rightarrow> int) \<Rightarrow> (unit_row \<Rightarrow> int) \<Rightarrow>
   dataframe \<Rightarrow> py_error + npf list" where
  "shadowIpwFunctional_A params W_1 R_A A data =
     and_then (getitem params 0) (\<lambda>p0.
     and_then (getitem params 1) (\<lambda>p1.
       (let pRA_A_0 = expit p0;
            pRA_1 = sc_div pRA_A_0
                      (sc_add pRA_A_0
                         (s_mulc (sc_pow p1 (col A data)) (np_sub (Fin 1) pRA_A_0)));
            output1 = np_average
              (s_sub (s_div (s_mul (col W_1 data) (astype_float (col R_A data))) pRA_1)
                     (col W_1 data));
            output2 = np_average
              (s_sub (s_div (s_mul (s_powc (col W_1 data) 2) (astype_float (col R_A data))) pRA_1)
                     (s_powc (col W_1 data) 2))
        in Inr [output1, output2])))"

definition rootsPrediction_A ::
  "npf list \<Rightarrow> (unit_row \<Rightarrow> int) \<Rightarrow> dataframe \<Rightarrow> py_error + npf list" where
  "rootsPrediction_A roots A data =
     and_then (getitem roots 0) (\<lambda>r0.
     and_then (getitem roots 1) (\<lambda>r1.
       (let pRA_A_0 = expit r0;
            predictions = sc_div pRA_A_0
                      (sc_add pRA_A_0
                         (s_mulc (sc_pow r1 (col A data)) (np_sub (Fin 1) pRA_A_0)))
        in Inr predictions)))"

section \<open>The specification's formulas\<close>


text \<open>\<open>sigmoid(x) = 1/(1+e^-x)\<close>, the sample average, \<open>p1 = p0 / (p0 + t * (1 - p0))\<close> for an
  odds-ratio term \<open>t\<close>, and the term \<open>h * R / p1 - h\<close> of one row, over the reals.\<close>

definition sigmoid :: "real \<Rightarrow> real" where
  "sigmoid x = 1 / (1 + exp (- x))"


















section \<open>The data generator\<close>

text \<open>
  \<open>np.random\<close> keeps one process-wide generator state; \<open>np.random.seed\<close> sets it and every
  draw reads and advances it. The state is passed explicitly. The sampling algorithms belong
  to NumPy, not to this repository, so the random source is a parameter: \<open>random_seed n\<close> is
  the state after \<open>np.random.seed(n)\<close>, \<open>random_normal loc scale size\<close> is
  \<open>np.random.normal(loc, scale, size)\<close> and \<open>random_binomial n p size\<close> is
  \<open>np.random.binomial(n, p, size)\<close>, which raises ValueError on a probability outside [0,1].
\<close>

record 's np_random =
  random_seed :: "nat \<Rightarrow> 's"
  random_normal :: "real \<Rightarrow> real \<Rightarrow> nat \<Rightarrow> 's \<Rightarrow> npf list \<times> 's"
  random_binomial :: "nat \<Rightarrow> npf list \<Rightarrow> nat \<Rightarrow> 's \<Rightarrow> py_error + int list \<times> 's"

text \<open>
  What is assumed of NumPy where a theorem needs it: a draw of \<open>size\<close> values has \<open>size\<close>
  values, and a binomial draw with one trial is 0 or 1.
\<close>

definition rng_ok :: "'s np_random \<Rightarrow> bool" where
  "rng_ok rng \<longleftrightarrow>
     (\<forall>loc scale n s. length (fst (random_normal rng loc scale n s)) = n) \<and>
     (\<forall>p n s xs s'. random_binomial rng 1 p n s = Inr (xs, s') \<longrightarrow>
         length xs = n \<and> (\<forall>x\<in>set xs. x = 0 \<or> x = 1))"

text \<open>\<open>s - c\<close> for a Series and a scalar, and \<open>c * a\<close> for an int scalar and an int64 array.\<close>

definition s_subc :: "npf list \<Rightarrow> npf \<Rightarrow> npf list" where
  "s_subc xs c = map (\<lambda>x. np_sub x c) xs"

definition ci_mul :: "int \<Rightarrow> int list \<Rightarrow> int list" where
  "ci_mul c ns = map (\<lambda>n. c * n) ns"

text \<open>
  \<open>np.bincount\<close> counts the occurrences of 0, 1, ..., max; it raises ValueError on a
  negative value and returns an empty array for an empty one.
\<close>

definition bincount :: "int list \<Rightarrow> py_error + int list" where
  "bincount xs =
     (if \<exists>x\<in>set xs. x < 0 then Inl ValueError
      else if xs = [] then Inr []
      else Inr (map (\<lambda>v. int (count_list xs v)) [0..fold max xs 0]))"

datatype out_item = OutInt int | OutText string npf

text \<open>\<open>print(label, np.bincount(xs)[1]/size)\<close> when \<open>verbose\<close>; \<open>[1]\<close> raises IndexError if no 1 occurs.\<close>

definition print_proportion ::
  "bool \<Rightarrow> string \<Rightarrow> int list \<Rightarrow> nat \<Rightarrow> out_item list \<Rightarrow> py_error + out_item list" where
  "print_proportion verbose label xs sz out =
     (if verbose then
        and_then (bincount xs) (\<lambda>counts.
        and_then (getitem counts 1) (\<lambda>k.
          Inr (out @ [OutText label (np_div (of_i64 k) (of_i64 (int sz)))])))
      else Inr out)"

text \<open>
  \<open>pd.DataFrame({"A": A, "Y": Y, "W1": W1, "W2": W2, "R_A": R_A, "R_Y": R_Y})\<close>: the arrays
  must have one length (ValueError otherwise); row \<open>i\<close> holds their \<open>i\<close>-th values.
\<close>

definition DataFrame ::
  "int list \<Rightarrow> int list \<Rightarrow> npf list \<Rightarrow> npf list \<Rightarrow> int list \<Rightarrow> int list \<Rightarrow> py_error + dataframe" where
  "DataFrame A Y W1 W2 R_A R_Y =
     (if length Y = length A \<and> length W1 = length A \<and> length W2 = length A
         \<and> length R_A = length A \<and> length R_Y = length A
      then Inr (map (\<lambda>i. \<lparr>colA = A ! i, colY = Y ! i, colW1 = W1 ! i, colW2 = W2 ! i,
                          colR_A = R_A ! i, colR_Y = R_Y ! i\<rparr>) [0..<length A])
      else Inl ValueError)"

text \<open>\<open>xs[mask] = v\<close> on a copy: the values where the mask holds are replaced.\<close>

definition setitem_mask :: "int list \<Rightarrow> bool list \<Rightarrow> int \<Rightarrow> int list" where
  "setitem_mask xs msk v = map2 (\<lambda>x b. if b then v else x) xs msk"

definition eq_scalar :: "int list \<Rightarrow> int \<Rightarrow> bool list" where
  "eq_scalar xs c = map (\<lambda>x. x = c) xs"

text \<open>Lines 43 to 53: the fully observed frame, then the partially observed one.\<close>

definition make_frames ::
  "int list \<Rightarrow> int list \<Rightarrow> npf list \<Rightarrow> npf list \<Rightarrow> int list \<Rightarrow> int list
     \<Rightarrow> py_error + dataframe \<times> dataframe" where
  "make_frames A Y W1 W2 R_A R_Y =
     and_then (DataFrame A Y W1 W2 R_A R_Y) (\<lambda>full_data.
       (let A' = setitem_mask (col colA full_data) (eq_scalar (col colR_A full_data) 0) (- 1);
            Y' = setitem_mask (col colY full_data) (eq_scalar (col colR_Y full_data) 0) (- 1)
        in and_then (DataFrame A' Y' W1 W2 R_A R_Y) (\<lambda>partial_data.
             Inr (full_data, partial_data))))"

text \<open>
  \<open>generateData(size, verbose)\<close>: the six draws in the order of the source, each from the
  state the draw before left, the printed lines when \<open>verbose\<close>, then the two frames. The
  result carries the frames, the generator state after the run and what was printed.
\<close>

definition generateData ::
  "'s np_random \<Rightarrow> nat \<Rightarrow> bool \<Rightarrow> 's \<Rightarrow> py_error + (dataframe \<times> dataframe) \<times> 's \<times> out_item list" where
  "generateData rng sz verbose s0 =
     (let out0 = (if verbose then [OutInt (int sz)] else []);
          (W1, s1) = random_normal rng 0 1 sz s0;
          (N, s2) = random_normal rng 0 1 sz s1;
          W2 = s_add N (sc_mul (Fin 1.4) W1)
      in and_then (random_binomial rng 1 (map expit (s_add W1 W2)) sz s2) (\<lambda>(A, s3).
         and_then (print_proportion verbose ''proportion of A=1:'' A sz out0) (\<lambda>out1.
         and_then (random_binomial rng 1
                     (map expit (s_subc (s_add W2 (astype_float A)) (Fin 0.4))) sz s3) (\<lambda>(Y, s4).
         and_then (print_proportion verbose ''proportion of Y=1:'' Y sz out1) (\<lambda>out2.
         and_then (random_binomial rng 1
                     (map expit (s_addc (astype_float (ci_mul 2 A)) (Fin 0.3))) sz s4) (\<lambda>(R_A, s5).
         and_then (print_proportion verbose ''proportion of R_A=1:'' R_A sz out2) (\<lambda>out3.
         and_then (random_binomial rng 1
                     (map expit (s_addc (s_add (astype_float (ci_mul 2 Y)) W2) (Fin 0.8))) sz s5) (\<lambda>(R_Y, s6).
         and_then (print_proportion verbose ''proportion of R_Y=1:'' R_Y sz out3) (\<lambda>out4.
         and_then (make_frames A Y W1 W2 R_A R_Y) (\<lambda>frames.
           Inr (frames, s6, out4)))))))))))"


text \<open>A toy random source for the examples: the state counts the values drawn.\<close>

definition toy_rng :: "nat np_random" where
  "toy_rng = \<lparr>random_seed = (\<lambda>n. n),
             random_normal = (\<lambda>loc scale n s. (map (\<lambda>i. Fin (loc + scale * real (s + i))) [0..<n], s + n)),
             random_binomial = (\<lambda>k p n s. Inr (map (\<lambda>i. int ((s div 2 + i) mod 2)) [0..<n], s + n))\<rparr>"

text \<open>The masking rule of the specification, on one row.\<close>

definition mask_row :: "unit_row \<Rightarrow> unit_row" where
  "mask_row u = u\<lparr>colA := (if colR_A u = 0 then - 1 else colA u),
                  colY := (if colR_Y u = 0 then - 1 else colY u)\<rparr>"

text \<open>What the toy source yields for two rows drawn from state 0.\<close>

definition toy_full :: dataframe where
  "toy_full = [\<lparr>colA = 0, colY = 1, colW1 = Fin 0, colW2 = Fin 2, colR_A = 0, colR_Y = 1\<rparr>,
               \<lparr>colA = 1, colY = 0, colW1 = Fin 1, colW2 = Fin (22 / 5), colR_A = 1, colR_Y = 0\<rparr>]"

definition toy_partial :: dataframe where
  "toy_partial = [\<lparr>colA = - 1, colY = 1, colW1 = Fin 0, colW2 = Fin 2, colR_A = 0, colR_Y = 1\<rparr>,
                  \<lparr>colA = 1, colY = - 1, colW1 = Fin 1, colW2 = Fin (22 / 5), colR_A = 1, colR_Y = 0\<rparr>]"

section \<open>Arrays as objects: what the generator modifies\<close>

text \<open>
  A NumPy array and a pandas column are objects: \<open>full_data["A"]\<close> hands out the column of
  the frame itself, \<open>.copy()\<close> makes a new object, and \<open>A[mask] = -1\<close> writes into the object
  that \<open>A\<close> names. To say what lines 43 to 53 modify, they are modelled a second time with
  the buffers in a store: an address is a position in the store, and a new object is put at
  its end. Whether \<open>pd.DataFrame\<close> copies the arrays it is given (it does for a dict of
  arrays in current pandas) or keeps them is the parameter \<open>cp\<close>.
\<close>

datatype buffer = IntBuf "int list" | FloatBuf "npf list"

type_synonym store = "buffer list"

record frame_ref =
  refA :: nat
  refY :: nat
  refW1 :: nat
  refW2 :: nat
  refR_A :: nat
  refR_Y :: nat

fun buf_len :: "buffer \<Rightarrow> nat" where
  "buf_len (IntBuf xs) = length xs"
| "buf_len (FloatBuf xs) = length xs"

fun ints_of :: "buffer \<Rightarrow> int list" where
  "ints_of (IntBuf xs) = xs"
| "ints_of (FloatBuf xs) = []"

fun floats_of :: "buffer \<Rightarrow> npf list" where
  "floats_of (FloatBuf xs) = xs"
| "floats_of (IntBuf xs) = []"

definition alloc :: "buffer \<Rightarrow> store \<Rightarrow> nat \<times> store" where
  "alloc b h = (length h, h @ [b])"

text \<open>The rows of a frame, read from the store.\<close>

definition read_frame :: "store \<Rightarrow> frame_ref \<Rightarrow> dataframe" where
  "read_frame h f =
     map (\<lambda>i. \<lparr>colA = ints_of (h ! refA f) ! i, colY = ints_of (h ! refY f) ! i,
                colW1 = floats_of (h ! refW1 f) ! i, colW2 = floats_of (h ! refW2 f) ! i,
                colR_A = ints_of (h ! refR_A f) ! i, colR_Y = ints_of (h ! refR_Y f) ! i\<rparr>)
         [0..<buf_len (h ! refA f)]"

definition DataFrame_refs ::
  "bool \<Rightarrow> nat \<Rightarrow> nat \<Rightarrow> nat \<Rightarrow> nat \<Rightarrow> nat \<Rightarrow> nat \<Rightarrow> store \<Rightarrow> py_error + frame_ref \<times> store" where
  "DataFrame_refs cp a y w1 w2 ra ry h =
     (if buf_len (h ! y) = buf_len (h ! a) \<and> buf_len (h ! w1) = buf_len (h ! a)
         \<and> buf_len (h ! w2) = buf_len (h ! a) \<and> buf_len (h ! ra) = buf_len (h ! a)
         \<and> buf_len (h ! ry) = buf_len (h ! a)
      then
        (if cp then
           (let (a', h1) = alloc (h ! a) h; (y', h2) = alloc (h ! y) h1;
                (w1', h3) = alloc (h ! w1) h2; (w2', h4) = alloc (h ! w2) h3;
                (ra', h5) = alloc (h ! ra) h4; (ry', h6) = alloc (h ! ry) h5
            in Inr (\<lparr>refA = a', refY = y', refW1 = w1', refW2 = w2', refR_A = ra', refR_Y = ry'\<rparr>, h6))
         else Inr (\<lparr>refA = a, refY = y, refW1 = w1, refW2 = w2, refR_A = ra, refR_Y = ry\<rparr>, h))
      else Inl ValueError)"

text \<open>\<open>xs[mask] = v\<close>: the buffer at the address of \<open>xs\<close> is overwritten.\<close>

definition setitem_mask_at :: "nat \<Rightarrow> bool list \<Rightarrow> int \<Rightarrow> store \<Rightarrow> store" where
  "setitem_mask_at p msk v h = h[p := IntBuf (setitem_mask (ints_of (h ! p)) msk v)]"

definition make_frames_store ::
  "bool \<Rightarrow> nat \<Rightarrow> nat \<Rightarrow> nat \<Rightarrow> nat \<Rightarrow> nat \<Rightarrow> nat \<Rightarrow> store
     \<Rightarrow> py_error + (frame_ref \<times> frame_ref) \<times> store" where
  "make_frames_store cp a y w1 w2 ra ry h =
     and_then (DataFrame_refs cp a y w1 w2 ra ry h) (\<lambda>(full_data, h1).
       (let (a', h2) = alloc (h1 ! refA full_data) h1;
            h3 = setitem_mask_at a' (eq_scalar (ints_of (h2 ! refR_A full_data)) 0) (- 1) h2;
            (y', h4) = alloc (h3 ! refY full_data) h3;
            h5 = setitem_mask_at y' (eq_scalar (ints_of (h4 ! refR_Y full_data)) 0) (- 1) h4
        in and_then (DataFrame_refs cp a' y' w1 w2 ra ry h5) (\<lambda>(partial_data, h6).
             Inr ((full_data, partial_data), h6))))"

text \<open>A store with the six arrays of the generator, for the examples.\<close>

definition toy_store :: store where
  "toy_store = [IntBuf [0, 1], IntBuf [1, 0], FloatBuf [Fin 0, Fin 1], FloatBuf [Fin 2, Fin (22 / 5)],
                IntBuf [0, 1], IntBuf [1, 0]]"

text \<open>The frame \<open>f\<close> of the store \<open>h\<close> has these six columns.\<close>

definition frame_holds ::
  "store \<Rightarrow> frame_ref \<Rightarrow> int list \<Rightarrow> int list \<Rightarrow> npf list \<Rightarrow> npf list \<Rightarrow> int list \<Rightarrow> int list \<Rightarrow> bool" where
  "frame_holds h f A Y W1 W2 R_A R_Y \<longleftrightarrow>
     refA f < length h \<and> refY f < length h \<and> refW1 f < length h \<and> refW2 f < length h
     \<and> refR_A f < length h \<and> refR_Y f < length h
     \<and> h ! refA f = IntBuf A \<and> h ! refY f = IntBuf Y \<and> h ! refW1 f = FloatBuf W1
     \<and> h ! refW2 f = FloatBuf W2 \<and> h ! refR_A f = IntBuf R_A \<and> h ! refR_Y f = IntBuf R_Y"

definition toy_full_ref :: frame_ref where
  "toy_full_ref = \<lparr>refA = 6, refY = 7, refW1 = 8, refW2 = 9, refR_A = 10, refR_Y = 11\<rparr>"

definition toy_partial_ref :: frame_ref where
  "toy_partial_ref = \<lparr>refA = 14, refY = 15, refW1 = 16, refW2 = 17, refR_A = 18, refR_Y = 19\<rparr>"

definition toy_store_full :: store where
  "toy_store_full = toy_store @ toy_store"

definition toy_store_final :: store where
  "toy_store_final = toy_store_full @ [IntBuf [- 1, 1], IntBuf [1, - 1]]
      @ [IntBuf [- 1, 1], IntBuf [1, - 1], FloatBuf [Fin 0, Fin 1], FloatBuf [Fin 2, Fin (22 / 5)],
         IntBuf [0, 1], IntBuf [1, 0]]"

section \<open>The residual and prediction functions in the store\<close>

text \<open>
  \<open>data[c]\<close> is the column object of the frame itself, not a copy; every operator (\<open>+\<close>, \<open>-\<close>,
  \<open>*\<close>, \<open>/\<close>, \<open>**\<close>, \<open>expit\<close>) makes a new Series from the values of its operands and changes
  no operand. A Series expression of the source is written as a tree: \<open>Col p\<close> is an
  existing object, the other nodes are operators, and \<open>eval\<close> evaluates the operands from
  left to right and puts the result of each operator into a new object. An int64 column read
  in float arithmetic is converted.
\<close>

definition series_at :: "store \<Rightarrow> nat \<Rightarrow> npf list" where
  "series_at h p = (case h ! p of IntBuf xs \<Rightarrow> astype_float xs | FloatBuf xs \<Rightarrow> xs)"

definition ints_at :: "store \<Rightarrow> nat \<Rightarrow> int list" where
  "ints_at h p = ints_of (h ! p)"

definition new_series :: "npf list \<Rightarrow> store \<Rightarrow> nat \<times> store" where
  "new_series xs h = alloc (FloatBuf xs) h"

datatype sx =
    Col nat
  | Map1 "npf \<Rightarrow> npf" sx
  | Map2 "npf \<Rightarrow> npf \<Rightarrow> npf" sx sx
  | MapI "int \<Rightarrow> npf" nat
  | Map2I "npf \<Rightarrow> int \<Rightarrow> npf" sx nat

fun eval :: "sx \<Rightarrow> store \<Rightarrow> nat \<times> store" where
  "eval (Col p) h = (p, h)"
| "eval (Map1 f e) h = (let (p, h1) = eval e h in new_series (map f (series_at h1 p)) h1)"
| "eval (Map2 f a b) h =
     (let (p, h1) = eval a h; (q, h2) = eval b h1
      in new_series (map2 f (series_at h2 p) (series_at h2 q)) h2)"
| "eval (MapI f q) h = new_series (map f (ints_at h q)) h"
| "eval (Map2I f e q) h =
     (let (p, h1) = eval e h in new_series (map2 f (series_at h1 p) (ints_at h1 q)) h1)"

text \<open>The value of an expression, and the addresses it reads.\<close>

fun val :: "store \<Rightarrow> sx \<Rightarrow> npf list" where
  "val h (Col p) = series_at h p"
| "val h (Map1 f e) = map f (val h e)"
| "val h (Map2 f a b) = map2 f (val h a) (val h b)"
| "val h (MapI f q) = map f (ints_at h q)"
| "val h (Map2I f e q) = map2 f (val h e) (ints_at h q)"

fun reads_below :: "nat \<Rightarrow> sx \<Rightarrow> bool" where
  "reads_below n (Col p) \<longleftrightarrow> p < n"
| "reads_below n (Map1 f e) \<longleftrightarrow> reads_below n e"
| "reads_below n (Map2 f a b) \<longleftrightarrow> reads_below n a \<and> reads_below n b"
| "reads_below n (MapI f q) \<longleftrightarrow> q < n"
| "reads_below n (Map2I f e q) \<longleftrightarrow> reads_below n e \<and> q < n"

text \<open>The operators of the source, as nodes.\<close>

definition x_add :: "sx \<Rightarrow> sx \<Rightarrow> sx" where "x_add a b = Map2 np_add a b"
definition x_sub :: "sx \<Rightarrow> sx \<Rightarrow> sx" where "x_sub a b = Map2 np_sub a b"
definition x_mul :: "sx \<Rightarrow> sx \<Rightarrow> sx" where "x_mul a b = Map2 np_mul a b"
definition x_div :: "sx \<Rightarrow> sx \<Rightarrow> sx" where "x_div a b = Map2 np_div a b"
definition x_pow :: "sx \<Rightarrow> nat \<Rightarrow> sx" where "x_pow a q = Map2I np_power a q"
definition xc_add :: "npf \<Rightarrow> sx \<Rightarrow> sx" where "xc_add c a = Map1 (\<lambda>x. np_add c x) a"
definition xc_sub :: "npf \<Rightarrow> sx \<Rightarrow> sx" where "xc_sub c a = Map1 (\<lambda>x. np_sub c x) a"
definition xc_mul :: "npf \<Rightarrow> sx \<Rightarrow> sx" where "xc_mul c a = Map1 (\<lambda>x. np_mul c x) a"
definition xc_div :: "npf \<Rightarrow> sx \<Rightarrow> sx" where "xc_div c a = Map1 (\<lambda>x. np_div c x) a"
definition xc_pow :: "npf \<Rightarrow> nat \<Rightarrow> sx" where "xc_pow c q = MapI (\<lambda>n. np_power c n) q"
definition x_addc :: "sx \<Rightarrow> npf \<Rightarrow> sx" where "x_addc a c = Map1 (\<lambda>x. np_add x c) a"
definition x_mulc :: "sx \<Rightarrow> npf \<Rightarrow> sx" where "x_mulc a c = Map1 (\<lambda>x. np_mul x c) a"
definition x_powc :: "sx \<Rightarrow> int \<Rightarrow> sx" where "x_powc a n = Map1 (\<lambda>x. np_power x n) a"
definition x_expit :: "sx \<Rightarrow> sx" where "x_expit a = Map1 expit a"

text \<open>The four functions, with the Series expressions of the source as trees.\<close>

definition shadowIpwFunctional_Y_store ::
  "npf list \<Rightarrow> (frame_ref \<Rightarrow> nat) \<Rightarrow> (frame_ref \<Rightarrow> nat) \<Rightarrow> (frame_ref \<Rightarrow> nat) \<Rightarrow> (frame_ref \<Rightarrow> nat)
     \<Rightarrow> frame_ref \<Rightarrow> store \<Rightarrow> py_error + npf list \<times> store" where
  "shadowIpwFunctional_Y_store params W_1 W_2 R_Y Y data h =
     and_then (getitem params 0) (\<lambda>p0.
     and_then (getitem params 1) (\<lambda>p1.
     and_then (getitem params 2) (\<lambda>p2.
     and_then (getitem params 3) (\<lambda>p3.
       (let (pRY_Y_0, h1) = eval (x_expit (xc_add p0 (xc_mul p1 (Col (W_2 data))))) h;
            (pRY_1, h2) = eval
              (x_div (Col pRY_Y_0)
                 (x_add (Col pRY_Y_0)
                    (x_mul (x_pow (xc_add p2 (xc_mul p3 (Col (W_2 data)))) (Y data))
                           (xc_sub (Fin 1) (Col pRY_Y_0))))) h1;
            (o1, h3) = eval
              (x_sub (x_div (x_mul (x_mul (Col (W_1 data)) (Col (W_2 data))) (Col (R_Y data))) (Col pRY_1))
                     (x_mul (Col (W_1 data)) (Col (W_2 data)))) h2;
            output1 = np_average (series_at h3 o1);
            (o2, h4) = eval
              (x_sub (x_div (x_mul (x_addc (x_mul (Col (W_1 data)) (Col (W_2 data))) (Fin 1))
                                   (Col (R_Y data))) (Col pRY_1))
                     (x_addc (x_mul (Col (W_1 data)) (Col (W_2 data))) (Fin 1))) h3;
            output2 = np_average (series_at h4 o2);
            (o3, h5) = eval
              (x_sub (x_div (x_mul (x_mul (Col (W_1 data)) (x_powc (Col (W_2 data)) 2))
                                   (Col (R_Y data))) (Col pRY_1))
                     (x_mul (Col (W_1 data)) (x_powc (Col (W_2 data)) 2))) h4;
            output3 = np_average (series_at h5 o3);
            (o4, h6) = eval
              (x_sub (x_div (x_mul (x_addc (x_mul (Col (W_1 data)) (x_powc (Col (W_2 data)) 2)) (Fin 1))
                                   (Col (R_Y data))) (Col pRY_1))
                     (x_addc (x_mul (Col (W_1 data)) (x_powc (Col (W_2 data)) 2)) (Fin 1))) h5;
            output4 = np_average (series_at h6 o4)
        in Inr ([output1, output2, output3, output4], h6))))))"

definition rootsPrediction_Y_store ::
  "npf list \<Rightarrow> (frame_ref \<Rightarrow> nat) \<Rightarrow> (frame_ref \<Rightarrow> nat) \<Rightarrow> frame_ref \<Rightarrow> store
     \<Rightarrow> py_error + nat \<times> store" where
  "rootsPrediction_Y_store roots W_2 Y data h =
     and_then (getitem roots 0) (\<lambda>r0.
     and_then (getitem roots 1) (\<lambda>r1.
     and_then (getitem roots 2) (\<lambda>r2.
     and_then (getitem roots 3) (\<lambda>r3.
       (let (pRY_1_Y_0, h1) = eval (x_expit (xc_add r0 (xc_mul r1 (Col (W_2 data))))) h;
            (predictions, h2) = eval
              (x_div (Col pRY_1_Y_0)
                 (x_add (Col pRY_1_Y_0)
                    (x_mul (x_pow (xc_add r2 (xc_mul r3 (Col (W_2 data)))) (Y data))
                           (xc_sub (Fin 1) (Col pRY_1_Y_0))))) h1
        in Inr (predictions, h2))))))"

definition shadowIpwFunctional_A_store ::
  "npf list \<Rightarrow> (frame_ref \<Rightarrow> nat) \<Rightarrow> (frame_ref \<Rightarrow> nat) \<Rightarrow> (frame_ref \<Rightarrow> nat) \<Rightarrow> frame_ref
     \<Rightarrow> store \<Rightarrow> py_error + npf list \<times> store" where
  "shadowIpwFunctional_A_store params W_1 R_A A data h =
     and_then (getitem params 0) (\<lambda>p0.
     and_then (getitem params 1) (\<lambda>p1.
       (let pRA_A_0 = expit p0;
            (pRA_1, h1) = eval
              (xc_div pRA_A_0
                 (xc_add pRA_A_0 (x_mulc (xc_pow p1 (A data)) (np_sub (Fin 1) pRA_A_0)))) h;
            (o1, h2) = eval
              (x_sub (x_div (x_mul (Col (W_1 data)) (Col (R_A data))) (Col pRA_1))
                     (Col (W_1 data))) h1;
            output1 = np_average (series_at h2 o1);
            (o2, h3) = eval
              (x_sub (x_div (x_mul (x_powc (Col (W_1 data)) 2) (Col (R_A data))) (Col pRA_1))
                     (x_powc (Col (W_1 data)) 2)) h2;
            output2 = np_average (series_at h3 o2)
        in Inr ([output1, output2], h3))))"

definition rootsPrediction_A_store ::
  "npf list \<Rightarrow> (frame_ref \<Rightarrow> nat) \<Rightarrow> frame_ref \<Rightarrow> store \<Rightarrow> py_error + nat \<times> store" where
  "rootsPrediction_A_store roots A data h =
     and_then (getitem roots 0) (\<lambda>r0.
     and_then (getitem roots 1) (\<lambda>r1.
       (let pRA_A_0 = expit r0;
            (predictions, h1) = eval
              (xc_div pRA_A_0
                 (xc_add pRA_A_0 (x_mulc (xc_pow r1 (A data)) (np_sub (Fin 1) pRA_A_0)))) h
        in Inr (predictions, h1))))"

section \<open>Arithmetic of finite values\<close>


lemmas series_defs = s_add_def s_sub_def s_mul_def s_div_def s_pow_def sc_add_def sc_sub_def
  sc_mul_def sc_div_def sc_pow_def s_addc_def s_mulc_def s_powc_def astype_float_def col_def


lemma and_then_simps: "and_then (Inr v) f = f v" "and_then (Inl e) f = Inl e"
  by (simp_all add: and_then_def)



















lemma sigmoid_less_1: "sigmoid x < 1"
  by (simp add: sigmoid_def add_pos_pos)







section \<open>The residuals as real numbers\<close>











section \<open>Masked rows\<close>






section \<open>Evaluation on concrete values\<close>

lemma np_add_Fin: "np_add (Fin x) (Fin y) = Fin (x + y)"
  by (simp add: np_add_def)

lemma np_add_NaN: "np_add NaN b = NaN"
  by (simp add: np_add_def)

lemma np_add_PInf: "np_add (Fin x) PInf = PInf"
  by (simp add: np_add_def)

lemma np_neg_Fin: "x \<noteq> 0 \<Longrightarrow> np_neg (Fin x) = Fin (- x)"
  by simp

lemma np_sub_Fin: "y \<noteq> 0 \<Longrightarrow> np_sub (Fin x) (Fin y) = Fin (x - y)"
  by (simp add: np_sub_def np_add_def)

lemma np_sub_NaN: "np_sub NaN b = NaN"
  by (simp add: np_sub_def np_add_def)

lemma np_mul_Fin: "np_mul (Fin x) (Fin y) =
    (if x = 0 \<or> y = 0 then zero_s ((x < 0) \<noteq> (y < 0)) else Fin (x * y))"
  by (simp add: np_mul_def)

lemma np_mul_PInf: "0 < y \<Longrightarrow> np_mul PInf (Fin y) = PInf"
  by (simp add: np_mul_def inf_s_def)

lemma np_div_Fin: "np_div (Fin x) (Fin y) =
    (if y = 0 then (if x = 0 then NaN else inf_s (x < 0))
     else if x = 0 then zero_s (y < 0) else Fin (x / y))"
  by (auto simp: np_div_def)

lemma np_div_PInf: "np_div (Fin x) PInf = zero_s (x < 0)"
  by (simp add: np_div_def)

lemma np_div_NaN: "np_div NaN b = NaN"
  by (simp add: np_div_def)

lemma np_power_Fin: "np_power (Fin x) n =
    (if n = 0 then Fin 1 else if x = 0 then (if n < 0 then PInf else Fin 0) else Fin (x powi n))"
  by (auto simp: np_power_def inf_s_def zero_s_def)

lemmas np_eval = np_add_Fin np_add_NaN np_add_PInf np_sub_Fin np_sub_NaN np_mul_Fin np_mul_PInf np_div_Fin
  np_div_PInf np_div_NaN np_power_Fin zero_s_def inf_s_def of_i64_def np_average_def

lemma expit_0: "expit (Fin 0) = Fin (1 / 2)"
  by simp

section \<open>The residual functions compute the specified averages\<close>





section \<open>The sentinel of a masked row\<close>






section \<open>Predictions and rejection\<close>







section \<open>The frames and the draws of a run\<close>

lemma DataFrame_Inr:
  assumes "length Y = length A" "length W1 = length A" "length W2 = length A"
    "length R_A = length A" "length R_Y = length A"
  shows "DataFrame A Y W1 W2 R_A R_Y =
     Inr (map (\<lambda>i. \<lparr>colA = A ! i, colY = Y ! i, colW1 = W1 ! i, colW2 = W2 ! i,
                          colR_A = R_A ! i, colR_Y = R_Y ! i\<rparr>) [0..<length A])"
  using assms by (simp add: DataFrame_def)

lemma DataFrame_Inl:
  assumes "\<not> (length Y = length A \<and> length W1 = length A \<and> length W2 = length A
         \<and> length R_A = length A \<and> length R_Y = length A)"
  shows "DataFrame A Y W1 W2 R_A R_Y = Inl ValueError"
  using assms by (simp add: DataFrame_def)

lemma map2_nth_upt:
  "length xs = n \<Longrightarrow> length ys = n \<Longrightarrow> map2 f xs ys = map (\<lambda>i. f (xs ! i) (ys ! i)) [0..<n]"
  by (auto simp: list_eq_iff_nth_eq)

lemma setitem_mask_eq_scalar:
  assumes "length rs = length xs"
  shows "setitem_mask xs (eq_scalar rs c) v = map (\<lambda>i. if rs ! i = c then v else xs ! i) [0..<length xs]"
proof -
  have "map2 (\<lambda>x b. if b then v else x) xs (map (\<lambda>x. x = c) rs)
      = map (\<lambda>i. if map (\<lambda>x. x = c) rs ! i then v else xs ! i) [0..<length xs]"
    by (rule map2_nth_upt) (simp_all add: assms)
  also have "\<dots> = map (\<lambda>i. if rs ! i = c then v else xs ! i) [0..<length xs]"
    by (rule map_cong) (simp_all add: assms)
  finally show ?thesis by (simp add: setitem_mask_def eq_scalar_def)
qed

lemma col_rows:
  "length xs = n \<Longrightarrow> col c (map (\<lambda>i. r i) [0..<n]) = xs \<longleftrightarrow> (\<forall>i<n. c (r i) = xs ! i)"
  by (auto simp: col_def list_eq_iff_nth_eq)

lemma make_frames_Inr:
  assumes "length Y = length A" "length W1 = length A" "length W2 = length A"
    "length R_A = length A" "length R_Y = length A"
  shows "make_frames A Y W1 W2 R_A R_Y =
     Inr (map (\<lambda>i. \<lparr>colA = A ! i, colY = Y ! i, colW1 = W1 ! i, colW2 = W2 ! i,
                          colR_A = R_A ! i, colR_Y = R_Y ! i\<rparr>) [0..<length A],
          map (\<lambda>i. mask_row \<lparr>colA = A ! i, colY = Y ! i, colW1 = W1 ! i, colW2 = W2 ! i,
                          colR_A = R_A ! i, colR_Y = R_Y ! i\<rparr>) [0..<length A])"
proof -
  let ?full = "map (\<lambda>i. \<lparr>colA = A ! i, colY = Y ! i, colW1 = W1 ! i, colW2 = W2 ! i,
                          colR_A = R_A ! i, colR_Y = R_Y ! i\<rparr>) [0..<length A]"
  have cA: "col colA ?full = A"
    by (subst col_rows) simp_all
  have cY: "col colY ?full = Y"
    by (subst col_rows) (simp_all add: assms)
  have cRA: "col colR_A ?full = R_A"
    by (subst col_rows) (simp_all add: assms)
  have cRY: "col colR_Y ?full = R_Y"
    by (subst col_rows) (simp_all add: assms)
  have A': "setitem_mask A (eq_scalar R_A 0) (- 1) = map (\<lambda>i. if R_A ! i = 0 then - 1 else A ! i) [0..<length A]"
    by (rule setitem_mask_eq_scalar) (simp add: assms)
  have Y': "setitem_mask Y (eq_scalar R_Y 0) (- 1) = map (\<lambda>i. if R_Y ! i = 0 then - 1 else Y ! i) [0..<length A]"
    using setitem_mask_eq_scalar [of R_Y Y 0 "- 1"] assms by simp
  have "DataFrame (map (\<lambda>i. if R_A ! i = 0 then - 1 else A ! i) [0..<length A])
                 (map (\<lambda>i. if R_Y ! i = 0 then - 1 else Y ! i) [0..<length A]) W1 W2 R_A R_Y
     = Inr (map (\<lambda>i. \<lparr>colA = map (\<lambda>i. if R_A ! i = 0 then - 1 else A ! i) [0..<length A] ! i,
                        colY = map (\<lambda>i. if R_Y ! i = 0 then - 1 else Y ! i) [0..<length A] ! i,
                        colW1 = W1 ! i, colW2 = W2 ! i, colR_A = R_A ! i, colR_Y = R_Y ! i\<rparr>) [0..<length A])"
    using assms by (simp add: DataFrame_def)
  also have "map (\<lambda>i. \<lparr>colA = map (\<lambda>i. if R_A ! i = 0 then - 1 else A ! i) [0..<length A] ! i,
                        colY = map (\<lambda>i. if R_Y ! i = 0 then - 1 else Y ! i) [0..<length A] ! i,
                        colW1 = W1 ! i, colW2 = W2 ! i, colR_A = R_A ! i, colR_Y = R_Y ! i\<rparr>) [0..<length A]
     = map (\<lambda>i. mask_row \<lparr>colA = A ! i, colY = Y ! i, colW1 = W1 ! i, colW2 = W2 ! i,
                          colR_A = R_A ! i, colR_Y = R_Y ! i\<rparr>) [0..<length A]"
    by (rule map_cong) (simp_all add: mask_row_def)
  finally have part: "DataFrame (map (\<lambda>i. if R_A ! i = 0 then - 1 else A ! i) [0..<length A])
                 (map (\<lambda>i. if R_Y ! i = 0 then - 1 else Y ! i) [0..<length A]) W1 W2 R_A R_Y
     = Inr (map (\<lambda>i. mask_row \<lparr>colA = A ! i, colY = Y ! i, colW1 = W1 ! i, colW2 = W2 ! i,
                          colR_A = R_A ! i, colR_Y = R_Y ! i\<rparr>) [0..<length A])" .
  show ?thesis
    unfolding make_frames_def DataFrame_Inr [OF assms] and_then_simps Let_def cA cY cRA cRY A' Y' part
    by (rule refl)
qed

lemma make_frames_Inr_D:
  assumes "make_frames A Y W1 W2 R_A R_Y = Inr (full_data, partial_data)"
  shows "length Y = length A \<and> length W1 = length A \<and> length W2 = length A
         \<and> length R_A = length A \<and> length R_Y = length A"
proof (rule ccontr)
  assume "\<not> ?thesis"
  then have "DataFrame A Y W1 W2 R_A R_Y = Inl ValueError" by (rule DataFrame_Inl)
  with assms show False by (simp add: make_frames_def and_then_simps)
qed


lemma and_then_Inr_D: "and_then r f = Inr v \<Longrightarrow> \<exists>x. r = Inr x \<and> f x = Inr v"
  by (cases r) (simp_all add: and_then_def)

lemma generateData_Inr_D:
  assumes "generateData rng sz verbose s0 = Inr ((full_data, partial_data), s', out)"
  shows "\<exists>W1 s1 N s2 A s3 Y s4 R_A s5 R_Y.
     random_normal rng 0 1 sz s0 = (W1, s1) \<and> random_normal rng 0 1 sz s1 = (N, s2)
     \<and> random_binomial rng 1 (map expit (s_add W1 (s_add N (sc_mul (Fin 1.4) W1)))) sz s2 = Inr (A, s3)
     \<and> random_binomial rng 1 (map expit (s_subc (s_add (s_add N (sc_mul (Fin 1.4) W1)) (astype_float A)) (Fin 0.4)))
          sz s3 = Inr (Y, s4)
     \<and> random_binomial rng 1 (map expit (s_addc (astype_float (ci_mul 2 A)) (Fin 0.3))) sz s4 = Inr (R_A, s5)
     \<and> random_binomial rng 1 (map expit (s_addc (s_add (astype_float (ci_mul 2 Y)) (s_add N (sc_mul (Fin 1.4) W1))) (Fin 0.8)))
          sz s5 = Inr (R_Y, s')
     \<and> make_frames A Y W1 (s_add N (sc_mul (Fin 1.4) W1)) R_A R_Y = Inr (full_data, partial_data)"
proof -
  obtain W1 s1 where n1: "random_normal rng 0 1 sz s0 = (W1, s1)" by (cases "random_normal rng 0 1 sz s0")
  obtain N s2 where n2: "random_normal rng 0 1 sz s1 = (N, s2)" by (cases "random_normal rng 0 1 sz s1")
  note g = assms [unfolded generateData_def Let_def n1 n2 prod.case]
  show ?thesis
    using g n1 n2
    by (fastforce dest!: and_then_Inr_D)
qed

lemma toy_rng_ok: "rng_ok toy_rng"
  by (auto simp: rng_ok_def toy_rng_def)

lemma toy_run: "generateData toy_rng 2 False 0 = Inr ((toy_full, toy_partial), 12, [])"
  by (simp add: generateData_def toy_rng_def and_then_simps print_proportion_def make_frames_def
      DataFrame_def series_defs setitem_mask_def eq_scalar_def upt_rec np_eval toy_full_def
      toy_partial_def)

lemma rng_ok_normal: "rng_ok rng \<Longrightarrow> random_normal rng loc scale n s = (xs, s') \<Longrightarrow> length xs = n"
  by (metis fst_conv rng_ok_def)

lemma rng_ok_binomial:
  "rng_ok rng \<Longrightarrow> random_binomial rng 1 p n s = Inr (xs, s') \<Longrightarrow>
     length xs = n \<and> (\<forall>i<n. xs ! i = 0 \<or> xs ! i = 1)"
  unfolding rng_ok_def by (metis nth_mem)

text \<open>What a successful run of the generator drew, and the two frames, row by row.\<close>

lemma generateData_rows:
  assumes ok: "rng_ok rng"
    and run: "generateData rng sz verbose s0 = Inr ((full_data, partial_data), s', out)"
  shows "\<exists>W1 s1 N s2 A s3 Y s4 R_A s5 R_Y.
     random_normal rng 0 1 sz s0 = (W1, s1) \<and> random_normal rng 0 1 sz s1 = (N, s2)
     \<and> random_binomial rng 1 (map expit (s_add W1 (s_add N (sc_mul (Fin 1.4) W1)))) sz s2 = Inr (A, s3)
     \<and> random_binomial rng 1 (map expit (s_subc (s_add (s_add N (sc_mul (Fin 1.4) W1)) (astype_float A)) (Fin 0.4)))
          sz s3 = Inr (Y, s4)
     \<and> random_binomial rng 1 (map expit (s_addc (astype_float (ci_mul 2 A)) (Fin 0.3))) sz s4 = Inr (R_A, s5)
     \<and> random_binomial rng 1 (map expit (s_addc (s_add (astype_float (ci_mul 2 Y)) (s_add N (sc_mul (Fin 1.4) W1))) (Fin 0.8)))
          sz s5 = Inr (R_Y, s')
     \<and> length W1 = sz \<and> length N = sz \<and> length A = sz \<and> length Y = sz \<and> length R_A = sz \<and> length R_Y = sz
     \<and> (\<forall>i<sz. (A ! i = 0 \<or> A ! i = 1) \<and> (Y ! i = 0 \<or> Y ! i = 1)
                 \<and> (R_A ! i = 0 \<or> R_A ! i = 1) \<and> (R_Y ! i = 0 \<or> R_Y ! i = 1))
     \<and> full_data = map (\<lambda>i. \<lparr>colA = A ! i, colY = Y ! i, colW1 = W1 ! i,
                          colW2 = np_add (N ! i) (np_mul (Fin 1.4) (W1 ! i)),
                          colR_A = R_A ! i, colR_Y = R_Y ! i\<rparr>) [0..<sz]
     \<and> partial_data = map mask_row full_data"
proof -
  from generateData_Inr_D [OF run] obtain W1 s1 N s2 A s3 Y s4 R_A s5 R_Y where
    n1: "random_normal rng 0 1 sz s0 = (W1, s1)" and n2: "random_normal rng 0 1 sz s1 = (N, s2)"
    and b1: "random_binomial rng 1 (map expit (s_add W1 (s_add N (sc_mul (Fin 1.4) W1)))) sz s2 = Inr (A, s3)"
    and b2: "random_binomial rng 1 (map expit (s_subc (s_add (s_add N (sc_mul (Fin 1.4) W1)) (astype_float A)) (Fin 0.4)))
          sz s3 = Inr (Y, s4)"
    and b3: "random_binomial rng 1 (map expit (s_addc (astype_float (ci_mul 2 A)) (Fin 0.3))) sz s4 = Inr (R_A, s5)"
    and b4: "random_binomial rng 1 (map expit (s_addc (s_add (astype_float (ci_mul 2 Y)) (s_add N (sc_mul (Fin 1.4) W1))) (Fin 0.8)))
          sz s5 = Inr (R_Y, s')"
    and mf: "make_frames A Y W1 (s_add N (sc_mul (Fin 1.4) W1)) R_A R_Y = Inr (full_data, partial_data)"
    by blast
  let ?W2 = "s_add N (sc_mul (Fin 1.4) W1)"
  have l: "length W1 = sz" "length N = sz" "length A = sz" "length Y = sz" "length R_A = sz" "length R_Y = sz"
    using rng_ok_normal [OF ok n1] rng_ok_normal [OF ok n2] rng_ok_binomial [OF ok b1]
      rng_ok_binomial [OF ok b2] rng_ok_binomial [OF ok b3] rng_ok_binomial [OF ok b4] by simp_all
  have v: "\<forall>i<sz. (A ! i = 0 \<or> A ! i = 1) \<and> (Y ! i = 0 \<or> Y ! i = 1)
                 \<and> (R_A ! i = 0 \<or> R_A ! i = 1) \<and> (R_Y ! i = 0 \<or> R_Y ! i = 1)"
    using rng_ok_binomial [OF ok b1] rng_ok_binomial [OF ok b2] rng_ok_binomial [OF ok b3]
      rng_ok_binomial [OF ok b4] by simp
  have lW2: "length ?W2 = sz" using l by (simp add: s_add_def sc_mul_def)
  have W2: "\<And>i. i < sz \<Longrightarrow> ?W2 ! i = np_add (N ! i) (np_mul (Fin 1.4) (W1 ! i))"
    using l by (simp add: s_add_def sc_mul_def)
  note F = make_frames_Inr [of Y A W1 ?W2 R_A R_Y, unfolded mf]
  have F': "(full_data, partial_data) =
     (map (\<lambda>i. \<lparr>colA = A ! i, colY = Y ! i, colW1 = W1 ! i, colW2 = ?W2 ! i,
                          colR_A = R_A ! i, colR_Y = R_Y ! i\<rparr>) [0..<length A],
      map (\<lambda>i. mask_row \<lparr>colA = A ! i, colY = Y ! i, colW1 = W1 ! i, colW2 = ?W2 ! i,
                          colR_A = R_A ! i, colR_Y = R_Y ! i\<rparr>) [0..<length A])"
    using F l lW2 by simp
  have full: "full_data = map (\<lambda>i. \<lparr>colA = A ! i, colY = Y ! i, colW1 = W1 ! i,
                          colW2 = np_add (N ! i) (np_mul (Fin 1.4) (W1 ! i)),
                          colR_A = R_A ! i, colR_Y = R_Y ! i\<rparr>) [0..<sz]"
  proof -
    have "full_data = map (\<lambda>i. \<lparr>colA = A ! i, colY = Y ! i, colW1 = W1 ! i, colW2 = ?W2 ! i,
                          colR_A = R_A ! i, colR_Y = R_Y ! i\<rparr>) [0..<sz]"
      using F' l by simp
    also have "\<dots> = map (\<lambda>i. \<lparr>colA = A ! i, colY = Y ! i, colW1 = W1 ! i,
                          colW2 = np_add (N ! i) (np_mul (Fin 1.4) (W1 ! i)),
                          colR_A = R_A ! i, colR_Y = R_Y ! i\<rparr>) [0..<sz]"
      using W2 by auto
    finally show ?thesis .
  qed
  have part: "partial_data = map mask_row full_data"
    using F' by (simp add: o_def)
  from n1 n2 b1 b2 b3 b4 l v full part show ?thesis by blast
qed

section \<open>Properties of the generated datasets\<close>

text \<open>
  C3: for every size, a pair (full, partial) returned by the data generator has \<open>size\<close> rows
  each, and at every row \<open>R_A = 1\<close> iff the partial \<open>A\<close> equals the full \<open>A\<close>, \<open>R_A = 0\<close> iff
  the partial \<open>A\<close> is the sentinel -1, the same for \<open>Y\<close> and \<open>R_Y\<close>, and \<open>W1\<close>, \<open>W2\<close>, \<open>R_A\<close>,
  \<open>R_Y\<close> are the same in both frames. The random source is assumed to return \<open>size\<close> values
  per draw and 0 or 1 from a binomial draw with one trial.
\<close>

theorem masking_consistency:
  assumes "rng_ok rng"
    and "generateData rng sz verbose s0 = Inr ((full_data, partial_data), s', out)"
  shows "length full_data = sz \<and> length partial_data = sz
    \<and> (\<forall>i<sz. (colR_A (partial_data ! i) = 1 \<longleftrightarrow> colA (partial_data ! i) = colA (full_data ! i))
              \<and> (colR_A (partial_data ! i) = 0 \<longleftrightarrow> colA (partial_data ! i) = - 1)
              \<and> (colR_Y (partial_data ! i) = 1 \<longleftrightarrow> colY (partial_data ! i) = colY (full_data ! i))
              \<and> (colR_Y (partial_data ! i) = 0 \<longleftrightarrow> colY (partial_data ! i) = - 1)
              \<and> colW1 (partial_data ! i) = colW1 (full_data ! i)
              \<and> colW2 (partial_data ! i) = colW2 (full_data ! i)
              \<and> colR_A (partial_data ! i) = colR_A (full_data ! i)
              \<and> colR_Y (partial_data ! i) = colR_Y (full_data ! i))"
proof -
  from generateData_rows [OF assms] obtain W1 N A Y R_A R_Y where
    v: "\<forall>i<sz. (A ! i = 0 \<or> A ! i = 1) \<and> (Y ! i = 0 \<or> Y ! i = 1)
                 \<and> (R_A ! i = 0 \<or> R_A ! i = 1) \<and> (R_Y ! i = 0 \<or> R_Y ! i = 1)"
    and full: "full_data = map (\<lambda>i. \<lparr>colA = A ! i, colY = Y ! i, colW1 = W1 ! i,
                          colW2 = np_add (N ! i) (np_mul (Fin 1.4) (W1 ! i)),
                          colR_A = R_A ! i, colR_Y = R_Y ! i\<rparr>) [0..<sz]"
    and part: "partial_data = map mask_row full_data"
    by blast
  have len: "length full_data = sz" "length partial_data = sz"
    by (simp_all add: full part)
  have row: "\<And>i. i < sz \<Longrightarrow> full_data ! i = \<lparr>colA = A ! i, colY = Y ! i, colW1 = W1 ! i,
                          colW2 = np_add (N ! i) (np_mul (Fin 1.4) (W1 ! i)),
                          colR_A = R_A ! i, colR_Y = R_Y ! i\<rparr>"
    by (simp add: full)
  have prow: "\<And>i. i < sz \<Longrightarrow> partial_data ! i = mask_row (full_data ! i)"
    using len by (simp add: part)
  show ?thesis
  proof (intro conjI allI impI len)
    fix i assume i: "i < sz"
    from v i have vi: "A ! i = 0 \<or> A ! i = 1" "Y ! i = 0 \<or> Y ! i = 1"
      "R_A ! i = 0 \<or> R_A ! i = 1" "R_Y ! i = 0 \<or> R_Y ! i = 1" by simp_all
    show "colR_A (partial_data ! i) = 1 \<longleftrightarrow> colA (partial_data ! i) = colA (full_data ! i)"
      using vi by (auto simp: prow [OF i] row [OF i] mask_row_def)
    show "colR_A (partial_data ! i) = 0 \<longleftrightarrow> colA (partial_data ! i) = - 1"
      using vi by (auto simp: prow [OF i] row [OF i] mask_row_def)
    show "colR_Y (partial_data ! i) = 1 \<longleftrightarrow> colY (partial_data ! i) = colY (full_data ! i)"
      using vi by (auto simp: prow [OF i] row [OF i] mask_row_def)
    show "colR_Y (partial_data ! i) = 0 \<longleftrightarrow> colY (partial_data ! i) = - 1"
      using vi by (auto simp: prow [OF i] row [OF i] mask_row_def)
    show "colW1 (partial_data ! i) = colW1 (full_data ! i)"
      by (simp add: prow [OF i] mask_row_def)
    show "colW2 (partial_data ! i) = colW2 (full_data ! i)"
      by (simp add: prow [OF i] mask_row_def)
    show "colR_A (partial_data ! i) = colR_A (full_data ! i)"
      by (simp add: prow [OF i] mask_row_def)
    show "colR_Y (partial_data ! i) = colR_Y (full_data ! i)"
      by (simp add: prow [OF i] mask_row_def)
  qed
qed

theorem masking_consistency_witness:
  "generateData toy_rng 2 False 0 = Inr ((toy_full, toy_partial), 12, [])
   \<and> length toy_full = 2 \<and> length toy_partial = 2
   \<and> (colR_A (toy_partial ! 0) = 0 \<longleftrightarrow> colA (toy_partial ! 0) = - 1)
   \<and> (colR_A (toy_partial ! 1) = 1 \<longleftrightarrow> colA (toy_partial ! 1) = colA (toy_full ! 1))
   \<and> (colR_Y (toy_partial ! 0) = 1 \<longleftrightarrow> colY (toy_partial ! 0) = colY (toy_full ! 0))
   \<and> (colR_Y (toy_partial ! 1) = 0 \<longleftrightarrow> colY (toy_partial ! 1) = - 1)
   \<and> colW1 (toy_partial ! 1) = colW1 (toy_full ! 1)
   \<and> colW2 (toy_partial ! 1) = colW2 (toy_full ! 1)
   \<and> colR_A (toy_partial ! 1) = colR_A (toy_full ! 1)
   \<and> colR_Y (toy_partial ! 1) = colR_Y (toy_full ! 1)"
proof -
  have 0: "(0::nat) < 2" and 1: "(1::nat) < 2" by simp_all
  from masking_consistency [OF toy_rng_ok toy_run] 0 1 toy_run show ?thesis by blast
qed

text \<open>
  C6: the generator draws \<open>W1\<close> as \<open>normal(0, 1)\<close>, \<open>W2\<close> as a second \<open>normal(0, 1)\<close> draw
  plus \<open>1.4 * W1\<close>, \<open>A\<close> as a one-trial binomial with probabilities \<open>expit (W1 + W2)\<close>, \<open>Y\<close>
  with \<open>expit (W2 + A - 0.4)\<close>, \<open>R_A\<close> with \<open>expit (2 * A + 0.3)\<close> and \<open>R_Y\<close> with
  \<open>expit (2 * Y + W2 + 0.8)\<close>, in this order from one generator state, and every \<open>A\<close>, \<open>Y\<close>,
  \<open>R_A\<close>, \<open>R_Y\<close> of the full dataset is 0 or 1. The distributions themselves are NumPy's:
  the statement is about what is asked of the random source, which is assumed to return
  0 or 1 from a one-trial binomial draw.
\<close>

theorem generator_draws:
  assumes "rng_ok rng"
    and "generateData rng sz verbose s0 = Inr ((full_data, partial_data), s', out)"
  shows "\<exists>N s1 s2 s3 s4 s5.
     random_normal rng 0 1 sz s0 = (col colW1 full_data, s1)
     \<and> random_normal rng 0 1 sz s1 = (N, s2)
     \<and> col colW2 full_data = map2 (\<lambda>n u. np_add n (np_mul (Fin 1.4) (colW1 u))) N full_data
     \<and> random_binomial rng 1 (map (\<lambda>u. expit (np_add (colW1 u) (colW2 u))) full_data) sz s2
          = Inr (col colA full_data, s3)
     \<and> random_binomial rng 1
          (map (\<lambda>u. expit (np_sub (np_add (colW2 u) (of_i64 (colA u))) (Fin 0.4))) full_data) sz s3
          = Inr (col colY full_data, s4)
     \<and> random_binomial rng 1
          (map (\<lambda>u. expit (np_add (of_i64 (2 * colA u)) (Fin 0.3))) full_data) sz s4
          = Inr (col colR_A full_data, s5)
     \<and> random_binomial rng 1
          (map (\<lambda>u. expit (np_add (np_add (of_i64 (2 * colY u)) (colW2 u)) (Fin 0.8))) full_data) sz s5
          = Inr (col colR_Y full_data, s')
     \<and> (\<forall>u\<in>set full_data. (colA u = 0 \<or> colA u = 1) \<and> (colY u = 0 \<or> colY u = 1)
            \<and> (colR_A u = 0 \<or> colR_A u = 1) \<and> (colR_Y u = 0 \<or> colR_Y u = 1))"
proof -
  from generateData_rows [OF assms] obtain W1 s1 N s2 A s3 Y s4 R_A s5 R_Y where
    n1: "random_normal rng 0 1 sz s0 = (W1, s1)" and n2: "random_normal rng 0 1 sz s1 = (N, s2)"
    and b1: "random_binomial rng 1 (map expit (s_add W1 (s_add N (sc_mul (Fin 1.4) W1)))) sz s2 = Inr (A, s3)"
    and b2: "random_binomial rng 1 (map expit (s_subc (s_add (s_add N (sc_mul (Fin 1.4) W1)) (astype_float A)) (Fin 0.4)))
          sz s3 = Inr (Y, s4)"
    and b3: "random_binomial rng 1 (map expit (s_addc (astype_float (ci_mul 2 A)) (Fin 0.3))) sz s4 = Inr (R_A, s5)"
    and b4: "random_binomial rng 1 (map expit (s_addc (s_add (astype_float (ci_mul 2 Y)) (s_add N (sc_mul (Fin 1.4) W1))) (Fin 0.8)))
          sz s5 = Inr (R_Y, s')"
    and l: "length W1 = sz" "length N = sz" "length A = sz" "length Y = sz" "length R_A = sz" "length R_Y = sz"
    and v: "\<forall>i<sz. (A ! i = 0 \<or> A ! i = 1) \<and> (Y ! i = 0 \<or> Y ! i = 1)
                 \<and> (R_A ! i = 0 \<or> R_A ! i = 1) \<and> (R_Y ! i = 0 \<or> R_Y ! i = 1)"
    and full: "full_data = map (\<lambda>i. \<lparr>colA = A ! i, colY = Y ! i, colW1 = W1 ! i,
                          colW2 = np_add (N ! i) (np_mul (Fin 1.4) (W1 ! i)),
                          colR_A = R_A ! i, colR_Y = R_Y ! i\<rparr>) [0..<sz]"
    by blast
  have cW1: "col colW1 full_data = W1" and cA: "col colA full_data = A" and cY: "col colY full_data = Y"
    and cRA: "col colR_A full_data = R_A" and cRY: "col colR_Y full_data = R_Y"
    using l by (auto simp: full col_def list_eq_iff_nth_eq)
  have cW2: "col colW2 full_data = map2 (\<lambda>n u. np_add n (np_mul (Fin 1.4) (colW1 u))) N full_data"
    using l by (auto simp: full col_def list_eq_iff_nth_eq)
  have p1: "map expit (s_add W1 (s_add N (sc_mul (Fin 1.4) W1)))
      = map (\<lambda>u. expit (np_add (colW1 u) (colW2 u))) full_data"
    using l by (auto simp: full list_eq_iff_nth_eq series_defs)
  have p2: "map expit (s_subc (s_add (s_add N (sc_mul (Fin 1.4) W1)) (astype_float A)) (Fin 0.4))
      = map (\<lambda>u. expit (np_sub (np_add (colW2 u) (of_i64 (colA u))) (Fin 0.4))) full_data"
    using l by (auto simp: full list_eq_iff_nth_eq series_defs s_subc_def)
  have p3: "map expit (s_addc (astype_float (ci_mul 2 A)) (Fin 0.3))
      = map (\<lambda>u. expit (np_add (of_i64 (2 * colA u)) (Fin 0.3))) full_data"
    using l by (auto simp: full list_eq_iff_nth_eq series_defs ci_mul_def)
  have p4: "map expit (s_addc (s_add (astype_float (ci_mul 2 Y)) (s_add N (sc_mul (Fin 1.4) W1))) (Fin 0.8))
      = map (\<lambda>u. expit (np_add (np_add (of_i64 (2 * colY u)) (colW2 u)) (Fin 0.8))) full_data"
    using l by (auto simp: full list_eq_iff_nth_eq series_defs ci_mul_def)
  have vals: "\<forall>u\<in>set full_data. (colA u = 0 \<or> colA u = 1) \<and> (colY u = 0 \<or> colY u = 1)
            \<and> (colR_A u = 0 \<or> colR_A u = 1) \<and> (colR_Y u = 0 \<or> colR_Y u = 1)"
    using v by (auto simp: full)
  have n1': "random_normal rng 0 1 sz s0 = (col colW1 full_data, s1)"
    using n1 by (simp only: cW1)
  have b1': "random_binomial rng 1 (map (\<lambda>u. expit (np_add (colW1 u) (colW2 u))) full_data) sz s2
          = Inr (col colA full_data, s3)"
    using b1 by (simp only: p1 cA)
  have b2': "random_binomial rng 1
          (map (\<lambda>u. expit (np_sub (np_add (colW2 u) (of_i64 (colA u))) (Fin 0.4))) full_data) sz s3
          = Inr (col colY full_data, s4)"
    using b2 by (simp only: p2 cY)
  have b3': "random_binomial rng 1
          (map (\<lambda>u. expit (np_add (of_i64 (2 * colA u)) (Fin 0.3))) full_data) sz s4
          = Inr (col colR_A full_data, s5)"
    using b3 by (simp only: p3 cRA)
  have b4': "random_binomial rng 1
          (map (\<lambda>u. expit (np_add (np_add (of_i64 (2 * colY u)) (colW2 u)) (Fin 0.8))) full_data) sz s5
          = Inr (col colR_Y full_data, s')"
    using b4 by (simp only: p4 cRY)
  from n1' n2 cW2 b1' b2' b3' b4' vals show ?thesis by blast
qed

theorem generator_draws_witness:
  "generateData toy_rng 2 False 0 = Inr ((toy_full, toy_partial), 12, [])
   \<and> (\<exists>N s1 s2 s3 s4 s5.
     random_normal toy_rng 0 1 2 0 = (col colW1 toy_full, s1)
     \<and> random_normal toy_rng 0 1 2 s1 = (N, s2)
     \<and> col colW2 toy_full = map2 (\<lambda>n u. np_add n (np_mul (Fin 1.4) (colW1 u))) N toy_full
     \<and> random_binomial toy_rng 1 (map (\<lambda>u. expit (np_add (colW1 u) (colW2 u))) toy_full) 2 s2
          = Inr (col colA toy_full, s3)
     \<and> random_binomial toy_rng 1
          (map (\<lambda>u. expit (np_sub (np_add (colW2 u) (of_i64 (colA u))) (Fin 0.4))) toy_full) 2 s3
          = Inr (col colY toy_full, s4)
     \<and> random_binomial toy_rng 1
          (map (\<lambda>u. expit (np_add (of_i64 (2 * colA u)) (Fin 0.3))) toy_full) 2 s4
          = Inr (col colR_A toy_full, s5)
     \<and> random_binomial toy_rng 1
          (map (\<lambda>u. expit (np_add (np_add (of_i64 (2 * colY u)) (colW2 u)) (Fin 0.8))) toy_full) 2 s5
          = Inr (col colR_Y toy_full, 12))"
  using toy_run generator_draws [OF toy_rng_ok toy_run]
  by blast




section \<open>The store model of the frames\<close>

lemma prefix_nth: "prefix h h' \<Longrightarrow> p < length h \<Longrightarrow> h' ! p = h ! p"
  by (auto simp: prefix_def nth_append)

lemma prefix_update: "prefix h h' \<Longrightarrow> length h \<le> p \<Longrightarrow> prefix h (h'[p := v])"
  by (auto simp: prefix_def list_update_append)

lemma prefix_snoc: "prefix h h' \<Longrightarrow> prefix h (h' @ [b])"
  by (auto simp: prefix_def)

lemma frame_holds_prefix:
  "frame_holds h f A Y W1 W2 R_A R_Y \<Longrightarrow> prefix h h' \<Longrightarrow> frame_holds h' f A Y W1 W2 R_A R_Y"
  unfolding frame_holds_def using prefix_nth [of h h'] prefix_length_le [of h h']
  by (metis order_less_le_trans)

lemma read_frame_prefix:
  assumes "prefix h h'" "refA f < length h" "refY f < length h" "refW1 f < length h"
    "refW2 f < length h" "refR_A f < length h" "refR_Y f < length h"
  shows "read_frame h' f = read_frame h f"
  using assms by (simp add: read_frame_def prefix_nth)

lemma read_frame_holds:
  assumes "frame_holds h f A Y W1 W2 R_A R_Y"
  shows "read_frame h f = map (\<lambda>i. \<lparr>colA = A ! i, colY = Y ! i, colW1 = W1 ! i, colW2 = W2 ! i,
                          colR_A = R_A ! i, colR_Y = R_Y ! i\<rparr>) [0..<length A]"
  using assms by (simp add: read_frame_def frame_holds_def)

lemma DataFrame_refs_Inl:
  assumes "h ! a = IntBuf A" "h ! y = IntBuf Y" "h ! w1 = FloatBuf W1" "h ! w2 = FloatBuf W2"
    "h ! ra = IntBuf R_A" "h ! ry = IntBuf R_Y"
    and "\<not> (length Y = length A \<and> length W1 = length A \<and> length W2 = length A
         \<and> length R_A = length A \<and> length R_Y = length A)"
  shows "DataFrame_refs cp a y w1 w2 ra ry h = Inl ValueError"
  using assms by (auto simp: DataFrame_refs_def)

lemma DataFrame_refs_Inr:
  assumes "h ! a = IntBuf A" "h ! y = IntBuf Y" "h ! w1 = FloatBuf W1" "h ! w2 = FloatBuf W2"
    "h ! ra = IntBuf R_A" "h ! ry = IntBuf R_Y"
    and "a < length h" "y < length h" "w1 < length h" "w2 < length h" "ra < length h" "ry < length h"
    and "length Y = length A" "length W1 = length A" "length W2 = length A"
        "length R_A = length A" "length R_Y = length A"
  shows "\<exists>f h1. DataFrame_refs cp a y w1 w2 ra ry h = Inr (f, h1) \<and> prefix h h1
            \<and> frame_holds h1 f A Y W1 W2 R_A R_Y"
proof (cases cp)
  case True
  have "DataFrame_refs cp a y w1 w2 ra ry h
      = Inr (\<lparr>refA = length h, refY = length h + 1, refW1 = length h + 2, refW2 = length h + 3,
               refR_A = length h + 4, refR_Y = length h + 5\<rparr>,
             h @ [IntBuf A, IntBuf Y, FloatBuf W1, FloatBuf W2, IntBuf R_A, IntBuf R_Y])"
    using assms True by (simp add: DataFrame_refs_def alloc_def)
  moreover have "frame_holds (h @ [IntBuf A, IntBuf Y, FloatBuf W1, FloatBuf W2, IntBuf R_A, IntBuf R_Y])
       \<lparr>refA = length h, refY = length h + 1, refW1 = length h + 2, refW2 = length h + 3,
               refR_A = length h + 4, refR_Y = length h + 5\<rparr> A Y W1 W2 R_A R_Y"
    by (simp add: frame_holds_def nth_append)
  ultimately show ?thesis by (metis prefixI)
next
  case False
  have "DataFrame_refs cp a y w1 w2 ra ry h
      = Inr (\<lparr>refA = a, refY = y, refW1 = w1, refW2 = w2, refR_A = ra, refR_Y = ry\<rparr>, h)"
    using assms False by (simp add: DataFrame_refs_def)
  moreover have "frame_holds h \<lparr>refA = a, refY = y, refW1 = w1, refW2 = w2, refR_A = ra, refR_Y = ry\<rparr>
       A Y W1 W2 R_A R_Y"
    using assms by (simp add: frame_holds_def)
  ultimately show ?thesis by auto
qed

lemma length_setitem_mask_eq:
  "length rs = length xs \<Longrightarrow> length (setitem_mask xs (eq_scalar rs c) v) = length xs"
  by (simp add: setitem_mask_def eq_scalar_def)

lemma make_frames_store_steps:
  assumes buf: "h ! a = IntBuf A" "h ! y = IntBuf Y" "h ! w1 = FloatBuf W1" "h ! w2 = FloatBuf W2"
    "h ! ra = IntBuf R_A" "h ! ry = IntBuf R_Y"
    and val: "a < length h" "y < length h" "w1 < length h" "w2 < length h" "ra < length h" "ry < length h"
    and len: "length Y = length A" "length W1 = length A" "length W2 = length A"
        "length R_A = length A" "length R_Y = length A"
  shows "\<exists>full_data partial_data h1 h'.
      DataFrame_refs cp a y w1 w2 ra ry h = Inr (full_data, h1)
    \<and> make_frames_store cp a y w1 w2 ra ry h = Inr ((full_data, partial_data), h')
    \<and> prefix h h1 \<and> prefix h1 h'
    \<and> frame_holds h1 full_data A Y W1 W2 R_A R_Y
    \<and> frame_holds h' partial_data (setitem_mask A (eq_scalar R_A 0) (- 1))
          (setitem_mask Y (eq_scalar R_Y 0) (- 1)) W1 W2 R_A R_Y"
proof -
  let ?A' = "setitem_mask A (eq_scalar R_A 0) (- 1)"
  let ?Y' = "setitem_mask Y (eq_scalar R_Y 0) (- 1)"
  from DataFrame_refs_Inr [OF buf val len, of cp] obtain f h1 where
    df: "DataFrame_refs cp a y w1 w2 ra ry h = Inr (f, h1)" and p1: "prefix h h1"
    and fh: "frame_holds h1 f A Y W1 W2 R_A R_Y"
    by blast
  let ?h5 = "h1 @ [IntBuf ?A', IntBuf ?Y']"
  have p5: "prefix h1 ?h5" by simp
  have p05: "prefix h ?h5" using p1 p5 by (rule prefix_order.trans)
  have l01: "length h \<le> length h1" using p1 by (rule prefix_length_le)
  have steps: "make_frames_store cp a y w1 w2 ra ry h =
      and_then (DataFrame_refs cp (length h1) (length h1 + 1) w1 w2 ra ry ?h5)
        (\<lambda>(partial_data, h6). Inr ((f, partial_data), h6))"
    using fh by (simp add: make_frames_store_def df and_then_simps alloc_def setitem_mask_at_def
        frame_holds_def nth_append Let_def)
  have buf5: "?h5 ! length h1 = IntBuf ?A'" "?h5 ! (length h1 + 1) = IntBuf ?Y'"
    "?h5 ! w1 = FloatBuf W1" "?h5 ! w2 = FloatBuf W2" "?h5 ! ra = IntBuf R_A" "?h5 ! ry = IntBuf R_Y"
    using prefix_nth [OF p05] val buf by (simp_all add: nth_append)
  have val5: "length h1 < length ?h5" "length h1 + 1 < length ?h5" "w1 < length ?h5" "w2 < length ?h5"
    "ra < length ?h5" "ry < length ?h5"
    using val l01 by simp_all
  have len5: "length ?Y' = length ?A'" "length W1 = length ?A'" "length W2 = length ?A'"
    "length R_A = length ?A'" "length R_Y = length ?A'"
    using len by (simp_all add: length_setitem_mask_eq)
  from DataFrame_refs_Inr [OF buf5 val5 len5, of cp] obtain p h6 where
    dp: "DataFrame_refs cp (length h1) (length h1 + 1) w1 w2 ra ry ?h5 = Inr (p, h6)"
    and p6: "prefix ?h5 h6" and ph: "frame_holds h6 p ?A' ?Y' W1 W2 R_A R_Y"
    by blast
  have run: "make_frames_store cp a y w1 w2 ra ry h = Inr ((f, p), h6)"
    using dp by (simp add: steps and_then_simps)
  have "prefix h1 h6" using p5 p6 by (rule prefix_order.trans)
  with df run p1 fh ph show ?thesis by blast
qed

lemma make_frames_store_Inl:
  assumes "h ! a = IntBuf A" "h ! y = IntBuf Y" "h ! w1 = FloatBuf W1" "h ! w2 = FloatBuf W2"
    "h ! ra = IntBuf R_A" "h ! ry = IntBuf R_Y"
    and "\<not> (length Y = length A \<and> length W1 = length A \<and> length W2 = length A
         \<and> length R_A = length A \<and> length R_Y = length A)"
  shows "make_frames_store cp a y w1 w2 ra ry h = Inl ValueError"
  using DataFrame_refs_Inl [OF assms] by (simp add: make_frames_store_def and_then_simps)

lemma masked_rows_nth:
  assumes "length Y = length A" "length R_A = length A" "length R_Y = length A"
  shows "map (\<lambda>i. \<lparr>colA = setitem_mask A (eq_scalar R_A 0) (- 1) ! i,
                    colY = setitem_mask Y (eq_scalar R_Y 0) (- 1) ! i,
                    colW1 = W1 ! i, colW2 = W2 ! i, colR_A = R_A ! i, colR_Y = R_Y ! i\<rparr>) [0..<length A]
       = map (\<lambda>i. mask_row \<lparr>colA = A ! i, colY = Y ! i, colW1 = W1 ! i, colW2 = W2 ! i,
                          colR_A = R_A ! i, colR_Y = R_Y ! i\<rparr>) [0..<length A]"
proof (rule map_cong [OF refl])
  fix i assume "i \<in> set [0..<length A]"
  then have i: "i < length A" by simp
  have "setitem_mask A (eq_scalar R_A 0) (- 1) ! i = (if R_A ! i = 0 then - 1 else A ! i)"
    using i assms by (simp add: setitem_mask_eq_scalar)
  moreover have "setitem_mask Y (eq_scalar R_Y 0) (- 1) ! i = (if R_Y ! i = 0 then - 1 else Y ! i)"
    using i assms by (simp add: setitem_mask_eq_scalar)
  ultimately show "\<lparr>colA = setitem_mask A (eq_scalar R_A 0) (- 1) ! i,
                    colY = setitem_mask Y (eq_scalar R_Y 0) (- 1) ! i,
                    colW1 = W1 ! i, colW2 = W2 ! i, colR_A = R_A ! i, colR_Y = R_Y ! i\<rparr>
       = mask_row \<lparr>colA = A ! i, colY = Y ! i, colW1 = W1 ! i, colW2 = W2 ! i,
                          colR_A = R_A ! i, colR_Y = R_Y ! i\<rparr>"
    by (simp add: mask_row_def)
qed

text \<open>
  Deriving the partial frame does not modify the full one, whether or not \<open>pd.DataFrame\<close>
  copies its arrays: every object that exists once \<open>full_data\<close> is built (the six arrays
  and the columns of the frame) is the same when the function returns, the rows of
  \<open>full_data\<close> read the same, and the two frames read from the final store are the frames of
  the value model \<open>make_frames\<close>. Only the two copies made by \<open>.copy()\<close> are written to.
\<close>

lemma make_frames_store_keeps_full:
  assumes "h ! a = IntBuf A" "h ! y = IntBuf Y" "h ! w1 = FloatBuf W1" "h ! w2 = FloatBuf W2"
    "h ! ra = IntBuf R_A" "h ! ry = IntBuf R_Y"
    and "a < length h" "y < length h" "w1 < length h" "w2 < length h" "ra < length h" "ry < length h"
    and run: "make_frames_store cp a y w1 w2 ra ry h = Inr ((full_data, partial_data), h')"
  shows "\<exists>h1. DataFrame_refs cp a y w1 w2 ra ry h = Inr (full_data, h1)
      \<and> prefix h h1 \<and> prefix h1 h'
      \<and> read_frame h' full_data = read_frame h1 full_data
      \<and> make_frames A Y W1 W2 R_A R_Y = Inr (read_frame h' full_data, read_frame h' partial_data)"
proof -
  have len: "length Y = length A" "length W1 = length A" "length W2 = length A"
        "length R_A = length A" "length R_Y = length A"
    using make_frames_store_Inl [OF assms(1-6), of cp] run by auto
  from make_frames_store_steps [OF assms(1-12) len, of cp] run obtain h1 where
    df: "DataFrame_refs cp a y w1 w2 ra ry h = Inr (full_data, h1)"
    and p: "prefix h h1" "prefix h1 h'"
    and fh: "frame_holds h1 full_data A Y W1 W2 R_A R_Y"
    and ph: "frame_holds h' partial_data (setitem_mask A (eq_scalar R_A 0) (- 1))
          (setitem_mask Y (eq_scalar R_Y 0) (- 1)) W1 W2 R_A R_Y"
    by auto
  have fh': "frame_holds h' full_data A Y W1 W2 R_A R_Y"
    using fh p(2) by (rule frame_holds_prefix)
  have same: "read_frame h' full_data = read_frame h1 full_data"
    by (simp add: read_frame_holds [OF fh] read_frame_holds [OF fh'])
  have lA': "length (setitem_mask A (eq_scalar R_A 0) (- 1)) = length A"
    using len by (simp add: length_setitem_mask_eq)
  have "make_frames A Y W1 W2 R_A R_Y = Inr (read_frame h' full_data, read_frame h' partial_data)"
    unfolding make_frames_Inr [OF len] read_frame_holds [OF fh'] read_frame_holds [OF ph] lA'
    using masked_rows_nth [of Y A R_A R_Y W1 W2] len by simp
  with df p same show ?thesis by blast
qed

lemma toy_store_run:
  "make_frames_store True 0 1 2 3 4 5 toy_store = Inr ((toy_full_ref, toy_partial_ref), toy_store_final)"
  by (simp add: make_frames_store_def DataFrame_refs_def alloc_def setitem_mask_at_def
      and_then_simps toy_store_def toy_full_ref_def toy_partial_ref_def toy_store_final_def
      toy_store_full_def setitem_mask_def eq_scalar_def Let_def nth_append)

section \<open>Evaluation in the store\<close>

lemma new_series_eq: "new_series xs h = (length h, h @ [FloatBuf xs])"
  by (simp add: new_series_def alloc_def)

lemma series_at_prefix: "prefix h h' \<Longrightarrow> p < length h \<Longrightarrow> series_at h' p = series_at h p"
  by (simp add: series_at_def prefix_nth)

lemma ints_at_prefix: "prefix h h' \<Longrightarrow> p < length h \<Longrightarrow> ints_at h' p = ints_at h p"
  by (simp add: ints_at_def prefix_nth)

lemma val_prefix: "prefix h h' \<Longrightarrow> reads_below (length h) e \<Longrightarrow> val h' e = val h e"
  by (induction e) (simp_all add: series_at_prefix ints_at_prefix)

lemma reads_below_mono: "reads_below n e \<Longrightarrow> n \<le> m \<Longrightarrow> reads_below m e"
  by (induction e) auto

lemma new_series_correct:
  assumes "new_series xs h = (p, h')"
  shows "prefix h h' \<and> p < length h' \<and> series_at h' p = xs"
  using assms by (auto simp: new_series_eq series_at_def)

lemma eval_correct:
  "reads_below (length h) e \<Longrightarrow> eval e h = (p, h') \<Longrightarrow>
     prefix h h' \<and> p < length h' \<and> series_at h' p = val h e"
proof (induction e arbitrary: h p h')
  case (Col q)
  then show ?case by simp
next
  case (Map1 f e)
  obtain q h1 where e: "eval e h = (q, h1)" by (cases "eval e h")
  from Map1.IH [OF _ e] Map1.prems have 1: "prefix h h1" "q < length h1" "series_at h1 q = val h e"
    by simp_all
  from Map1.prems e have "new_series (map f (series_at h1 q)) h1 = (p, h')" by simp
  from new_series_correct [OF this] 1 show ?case
    by (auto intro: prefix_order.trans)
next
  case (Map2 f a b)
  obtain q h1 where a: "eval a h = (q, h1)" by (cases "eval a h")
  obtain r h2 where b: "eval b h1 = (r, h2)" by (cases "eval b h1")
  from Map2.IH(1) [OF _ a] Map2.prems have 1: "prefix h h1" "q < length h1" "series_at h1 q = val h a"
    by simp_all
  have rb: "reads_below (length h1) b"
    using Map2.prems(1) prefix_length_le [OF 1(1)] by (auto intro: reads_below_mono)
  from Map2.IH(2) [OF rb b] have 2: "prefix h1 h2" "r < length h2" "series_at h2 r = val h1 b"
    by simp_all
  have v: "val h1 b = val h b" using 1(1) Map2.prems(1) by (simp add: val_prefix)
  have q2: "series_at h2 q = val h a" using 1 2(1) by (simp add: series_at_prefix)
  from Map2.prems a b have "new_series (map2 f (series_at h2 q) (series_at h2 r)) h2 = (p, h')" by simp
  from new_series_correct [OF this] 1 2 v q2 show ?case
    by (auto intro: prefix_order.trans)
next
  case (MapI f q)
  from MapI.prems have "new_series (map f (ints_at h q)) h = (p, h')" by simp
  from new_series_correct [OF this] show ?case by simp
next
  case (Map2I f e r)
  obtain q h1 where e: "eval e h = (q, h1)" by (cases "eval e h")
  from Map2I.IH [OF _ e] Map2I.prems have 1: "prefix h h1" "q < length h1" "series_at h1 q = val h e"
    by simp_all
  have i: "ints_at h1 r = ints_at h r" using 1(1) Map2I.prems(1) by (simp add: ints_at_prefix)
  from Map2I.prems e have "new_series (map2 f (series_at h1 q) (ints_at h1 r)) h1 = (p, h')" by simp
  from new_series_correct [OF this] 1 i show ?case
    by (auto intro: prefix_order.trans)
qed

lemma val_ops:
  "val h (x_add a b) = s_add (val h a) (val h b)"
  "val h (x_sub a b) = s_sub (val h a) (val h b)"
  "val h (x_mul a b) = s_mul (val h a) (val h b)"
  "val h (x_div a b) = s_div (val h a) (val h b)"
  "val h (x_pow a q) = s_pow (val h a) (ints_at h q)"
  "val h (xc_add c a) = sc_add c (val h a)"
  "val h (xc_sub c a) = sc_sub c (val h a)"
  "val h (xc_mul c a) = sc_mul c (val h a)"
  "val h (xc_div c a) = sc_div c (val h a)"
  "val h (xc_pow c q) = sc_pow c (ints_at h q)"
  "val h (x_addc a c) = s_addc (val h a) c"
  "val h (x_mulc a c) = s_mulc (val h a) c"
  "val h (x_powc a n) = s_powc (val h a) n"
  "val h (x_expit a) = map expit (val h a)"
  by (simp_all add: x_add_def x_sub_def x_mul_def x_div_def x_pow_def xc_add_def xc_sub_def
      xc_mul_def xc_div_def xc_pow_def x_addc_def x_mulc_def x_powc_def x_expit_def series_defs)

lemma reads_ops:
  "reads_below n (x_add a b) \<longleftrightarrow> reads_below n a \<and> reads_below n b"
  "reads_below n (x_sub a b) \<longleftrightarrow> reads_below n a \<and> reads_below n b"
  "reads_below n (x_mul a b) \<longleftrightarrow> reads_below n a \<and> reads_below n b"
  "reads_below n (x_div a b) \<longleftrightarrow> reads_below n a \<and> reads_below n b"
  "reads_below n (x_pow a q) \<longleftrightarrow> reads_below n a \<and> q < n"
  "reads_below n (xc_add c a) \<longleftrightarrow> reads_below n a"
  "reads_below n (xc_sub c a) \<longleftrightarrow> reads_below n a"
  "reads_below n (xc_mul c a) \<longleftrightarrow> reads_below n a"
  "reads_below n (xc_div c a) \<longleftrightarrow> reads_below n a"
  "reads_below n (xc_pow c q) \<longleftrightarrow> q < n"
  "reads_below n (x_addc a c) \<longleftrightarrow> reads_below n a"
  "reads_below n (x_mulc a c) \<longleftrightarrow> reads_below n a"
  "reads_below n (x_powc a k) \<longleftrightarrow> reads_below n a"
  "reads_below n (x_expit a) \<longleftrightarrow> reads_below n a"
  by (simp_all add: x_add_def x_sub_def x_mul_def x_div_def x_pow_def xc_add_def xc_sub_def
      xc_mul_def xc_div_def xc_pow_def x_addc_def x_mulc_def x_powc_def x_expit_def)

lemma eval_step:
  assumes "reads_below (length h) e"
  obtains p h' where "eval e h = (p, h')" "prefix h h'" "p < length h'" "series_at h' p = val h e"
  using eval_correct [OF assms] by (cases "eval e h") auto

lemma map_nth_len: "length xs = n \<Longrightarrow> map (\<lambda>i. xs ! i) [0..<n] = xs"
  using map_nth [of xs] by simp

lemma col_read_frame:
  assumes fh: "frame_holds h f A Y W1 W2 R_A R_Y"
    and len: "length Y = length A" "length W1 = length A" "length W2 = length A"
        "length R_A = length A" "length R_Y = length A"
  shows "col colA (read_frame h f) = ints_at h (refA f)"
    and "col colY (read_frame h f) = ints_at h (refY f)"
    and "col colW1 (read_frame h f) = series_at h (refW1 f)"
    and "col colW2 (read_frame h f) = series_at h (refW2 f)"
    and "astype_float (col colR_A (read_frame h f)) = series_at h (refR_A f)"
    and "astype_float (col colR_Y (read_frame h f)) = series_at h (refR_Y f)"
proof -
  have b: "h ! refA f = IntBuf A" "h ! refY f = IntBuf Y" "h ! refW1 f = FloatBuf W1"
    "h ! refW2 f = FloatBuf W2" "h ! refR_A f = IntBuf R_A" "h ! refR_Y f = IntBuf R_Y"
    using fh by (simp_all add: frame_holds_def)
  show "col colA (read_frame h f) = ints_at h (refA f)"
    by (simp add: read_frame_holds [OF fh] col_def o_def ints_at_def b map_nth_len)
  show "col colY (read_frame h f) = ints_at h (refY f)"
    by (simp add: read_frame_holds [OF fh] col_def o_def ints_at_def b map_nth_len len)
  show "col colW1 (read_frame h f) = series_at h (refW1 f)"
    by (simp add: read_frame_holds [OF fh] col_def o_def series_at_def b map_nth_len len)
  show "col colW2 (read_frame h f) = series_at h (refW2 f)"
    by (simp add: read_frame_holds [OF fh] col_def o_def series_at_def b map_nth_len len)
  show "astype_float (col colR_A (read_frame h f)) = series_at h (refR_A f)"
    by (simp add: read_frame_holds [OF fh] col_def o_def series_at_def b map_nth_len len)
  show "astype_float (col colR_Y (read_frame h f)) = series_at h (refR_Y f)"
    by (simp add: read_frame_holds [OF fh] col_def o_def series_at_def b map_nth_len len)
qed

lemma frame_holds_valid:
  "frame_holds h f A Y W1 W2 R_A R_Y \<Longrightarrow>
     refA f < length h \<and> refY f < length h \<and> refW1 f < length h \<and> refW2 f < length h
     \<and> refR_A f < length h \<and> refR_Y f < length h"
  by (simp add: frame_holds_def)

lemma getitem_chain4_Inl:
  "length ps < 4 \<Longrightarrow>
     and_then (getitem ps 0) (\<lambda>a. and_then (getitem ps 1) (\<lambda>b.
       and_then (getitem ps 2) (\<lambda>c. and_then (getitem ps 3) (\<lambda>d. F a b c d)))) = Inl IndexError"
  by (auto simp: getitem_def and_then_def)

lemma getitem_chain2_Inl:
  "length ps < 2 \<Longrightarrow>
     and_then (getitem ps 0) (\<lambda>a. and_then (getitem ps 1) (\<lambda>b. F a b)) = Inl IndexError"
  by (auto simp: getitem_def and_then_def)

lemma shadowIpwFunctional_A_store_sim:
  assumes fh: "frame_holds h f A Y W1 W2 R_A R_Y"
    and len: "length Y = length A" "length W1 = length A" "length W2 = length A"
        "length R_A = length A" "length R_Y = length A"
  shows "\<exists>h'. prefix h h' \<and> shadowIpwFunctional_A_store params refW1 refR_A refA f h
           = and_then (shadowIpwFunctional_A params colW1 colR_A colA (read_frame h f))
               (\<lambda>v. Inr (v, h'))"
proof (cases "length params < 2")
  case True
  then have "shadowIpwFunctional_A_store params refW1 refR_A refA f h = Inl IndexError"
    "shadowIpwFunctional_A params colW1 colR_A colA (read_frame h f) = Inl IndexError"
    unfolding shadowIpwFunctional_A_store_def shadowIpwFunctional_A_def
    by (rule getitem_chain2_Inl)+
  then show ?thesis by (auto simp: and_then_simps)
next
  case False
  then have g: "getitem params 0 = Inr (params ! 0)" "getitem params 1 = Inr (params ! 1)"
    by (auto simp: getitem_def)
  note v = frame_holds_valid [OF fh]
  let ?p = "expit (params ! 0)"
  let ?e1 = "xc_div ?p (xc_add ?p (x_mulc (xc_pow (params ! 1) (refA f)) (np_sub (Fin 1) ?p)))"
  have "reads_below (length h) ?e1" using v by (simp add: reads_ops)
  then obtain pRA_1 h1 where 1: "eval ?e1 h = (pRA_1, h1)" "prefix h h1" "pRA_1 < length h1"
    "series_at h1 pRA_1 = val h ?e1"
    by (rule eval_step)
  have l1: "length h \<le> length h1" using 1(2) by (rule prefix_length_le)
  let ?e2 = "x_sub (x_div (x_mul (Col (refW1 f)) (Col (refR_A f))) (Col pRA_1)) (Col (refW1 f))"
  have "reads_below (length h1) ?e2" using v l1 1(3) by (simp add: reads_ops)
  then obtain o1 h2 where 2: "eval ?e2 h1 = (o1, h2)" "prefix h1 h2" "o1 < length h2"
    "series_at h2 o1 = val h1 ?e2"
    by (rule eval_step)
  have l2: "length h1 \<le> length h2" using 2(2) by (rule prefix_length_le)
  have p2: "prefix h h2" using 1(2) 2(2) by (rule prefix_order.trans)
  let ?e3 = "x_sub (x_div (x_mul (x_powc (Col (refW1 f)) 2) (Col (refR_A f))) (Col pRA_1))
                     (x_powc (Col (refW1 f)) 2)"
  have "reads_below (length h2) ?e3" using v l1 l2 1(3) by (simp add: reads_ops)
  then obtain o2 h3 where 3: "eval ?e3 h2 = (o2, h3)" "prefix h2 h3" "o2 < length h3"
    "series_at h3 o2 = val h2 ?e3"
    by (rule eval_step)
  have p3: "prefix h h3" using p2 3(2) by (rule prefix_order.trans)
  have r1: "series_at h1 (refW1 f) = series_at h (refW1 f)" "series_at h1 (refR_A f) = series_at h (refR_A f)"
    using v 1(2) by (simp_all add: series_at_prefix)
  have r2: "series_at h2 (refW1 f) = series_at h (refW1 f)" "series_at h2 (refR_A f) = series_at h (refR_A f)"
    "series_at h2 pRA_1 = series_at h1 pRA_1"
    using v p2 2(2) 1(3) by (simp_all add: series_at_prefix)
  have run: "shadowIpwFunctional_A_store params refW1 refR_A refA f h
      = Inr ([np_average (series_at h2 o1), np_average (series_at h3 o2)], h3)"
    using g 1(1) 2(1) 3(1)
    by (simp add: shadowIpwFunctional_A_store_def and_then_simps Let_def)
  have val: "shadowIpwFunctional_A params colW1 colR_A colA (read_frame h f)
      = Inr [np_average (series_at h2 o1), np_average (series_at h3 o2)]"
    using g
    by (simp add: shadowIpwFunctional_A_def and_then_simps Let_def col_read_frame [OF fh len]
        2(4) 3(4) 1(4) val_ops r1 r2)
  show ?thesis using p3 run val by (auto simp: and_then_simps)
qed

lemma shadowIpwFunctional_Y_store_sim:
  assumes fh: "frame_holds h f A Y W1 W2 R_A R_Y"
    and len: "length Y = length A" "length W1 = length A" "length W2 = length A"
        "length R_A = length A" "length R_Y = length A"
  shows "\<exists>h'. prefix h h' \<and> shadowIpwFunctional_Y_store params refW1 refW2 refR_Y refY f h
           = and_then (shadowIpwFunctional_Y params colW1 colW2 colR_Y colY (read_frame h f))
               (\<lambda>v. Inr (v, h'))"
proof (cases "length params < 4")
  case True
  then have "shadowIpwFunctional_Y_store params refW1 refW2 refR_Y refY f h = Inl IndexError"
    "shadowIpwFunctional_Y params colW1 colW2 colR_Y colY (read_frame h f) = Inl IndexError"
    unfolding shadowIpwFunctional_Y_store_def shadowIpwFunctional_Y_def
    by (rule getitem_chain4_Inl)+
  then show ?thesis by (auto simp: and_then_simps)
next
  case False
  then have g: "getitem params 0 = Inr (params ! 0)" "getitem params 1 = Inr (params ! 1)"
    "getitem params 2 = Inr (params ! 2)" "getitem params 3 = Inr (params ! 3)"
    by (auto simp: getitem_def)
  note v = frame_holds_valid [OF fh]
  let ?e0 = "x_expit (xc_add (params ! 0) (xc_mul (params ! 1) (Col (refW2 f))))"
  have "reads_below (length h) ?e0" using v by (simp add: reads_ops)
  then obtain pRY_Y_0 h1 where 0: "eval ?e0 h = (pRY_Y_0, h1)" "prefix h h1" "pRY_Y_0 < length h1"
    "series_at h1 pRY_Y_0 = val h ?e0"
    by (rule eval_step)
  have l1: "length h \<le> length h1" using 0(2) by (rule prefix_length_le)
  let ?e1 = "x_div (Col pRY_Y_0)
                 (x_add (Col pRY_Y_0)
                    (x_mul (x_pow (xc_add (params ! 2) (xc_mul (params ! 3) (Col (refW2 f)))) (refY f))
                           (xc_sub (Fin 1) (Col pRY_Y_0))))"
  have "reads_below (length h1) ?e1" using v l1 0(3) by (simp add: reads_ops)
  then obtain pRY_1 h2 where 1: "eval ?e1 h1 = (pRY_1, h2)" "prefix h1 h2" "pRY_1 < length h2"
    "series_at h2 pRY_1 = val h1 ?e1"
    by (rule eval_step)
  have p2: "prefix h h2" using 0(2) 1(2) by (rule prefix_order.trans)
  have l2: "length h \<le> length h2" using p2 by (rule prefix_length_le)
  let ?e2 = "x_sub (x_div (x_mul (x_mul (Col (refW1 f)) (Col (refW2 f))) (Col (refR_Y f))) (Col pRY_1))
                     (x_mul (Col (refW1 f)) (Col (refW2 f)))"
  have "reads_below (length h2) ?e2" using v l2 1(3) by (simp add: reads_ops)
  then obtain o1 h3 where 2: "eval ?e2 h2 = (o1, h3)" "prefix h2 h3" "o1 < length h3"
    "series_at h3 o1 = val h2 ?e2"
    by (rule eval_step)
  have p3: "prefix h h3" using p2 2(2) by (rule prefix_order.trans)
  have l3: "length h \<le> length h3" "length h2 \<le> length h3"
    using p3 2(2) by (auto intro: prefix_length_le)
  let ?e3 = "x_sub (x_div (x_mul (x_addc (x_mul (Col (refW1 f)) (Col (refW2 f))) (Fin 1))
                                   (Col (refR_Y f))) (Col pRY_1))
                     (x_addc (x_mul (Col (refW1 f)) (Col (refW2 f))) (Fin 1))"
  have "reads_below (length h3) ?e3" using v l3 1(3) by (simp add: reads_ops)
  then obtain o2 h4 where 3: "eval ?e3 h3 = (o2, h4)" "prefix h3 h4" "o2 < length h4"
    "series_at h4 o2 = val h3 ?e3"
    by (rule eval_step)
  have p4: "prefix h h4" "prefix h2 h4"
    using p3 2(2) 3(2) by (auto intro: prefix_order.trans)
  have l4: "length h \<le> length h4" "length h2 \<le> length h4"
    using p4 by (auto intro: prefix_length_le)
  let ?e4 = "x_sub (x_div (x_mul (x_mul (Col (refW1 f)) (x_powc (Col (refW2 f)) 2))
                                   (Col (refR_Y f))) (Col pRY_1))
                     (x_mul (Col (refW1 f)) (x_powc (Col (refW2 f)) 2))"
  have "reads_below (length h4) ?e4" using v l4 1(3) by (simp add: reads_ops)
  then obtain o3 h5 where 4: "eval ?e4 h4 = (o3, h5)" "prefix h4 h5" "o3 < length h5"
    "series_at h5 o3 = val h4 ?e4"
    by (rule eval_step)
  have p5: "prefix h h5" "prefix h2 h5"
    using p4 4(2) by (auto intro: prefix_order.trans)
  have l5: "length h \<le> length h5" "length h2 \<le> length h5"
    using p5 by (auto intro: prefix_length_le)
  let ?e5 = "x_sub (x_div (x_mul (x_addc (x_mul (Col (refW1 f)) (x_powc (Col (refW2 f)) 2)) (Fin 1))
                                   (Col (refR_Y f))) (Col pRY_1))
                     (x_addc (x_mul (Col (refW1 f)) (x_powc (Col (refW2 f)) 2)) (Fin 1))"
  have "reads_below (length h5) ?e5" using v l5 1(3) by (simp add: reads_ops)
  then obtain o4 h6 where 5: "eval ?e5 h5 = (o4, h6)" "prefix h5 h6" "o4 < length h6"
    "series_at h6 o4 = val h5 ?e5"
    by (rule eval_step)
  have p6: "prefix h h6" using p5(1) 5(2) by (rule prefix_order.trans)
  have r1: "series_at h1 (refW2 f) = series_at h (refW2 f)" "ints_at h1 (refY f) = ints_at h (refY f)"
    using v 0(2) by (simp_all add: series_at_prefix ints_at_prefix)
  have rk: "series_at h2 (refW1 f) = series_at h (refW1 f)" "series_at h2 (refW2 f) = series_at h (refW2 f)"
    "series_at h2 (refR_Y f) = series_at h (refR_Y f)"
    "series_at h3 (refW1 f) = series_at h (refW1 f)" "series_at h3 (refW2 f) = series_at h (refW2 f)"
    "series_at h3 (refR_Y f) = series_at h (refR_Y f)"
    "series_at h4 (refW1 f) = series_at h (refW1 f)" "series_at h4 (refW2 f) = series_at h (refW2 f)"
    "series_at h4 (refR_Y f) = series_at h (refR_Y f)"
    "series_at h5 (refW1 f) = series_at h (refW1 f)" "series_at h5 (refW2 f) = series_at h (refW2 f)"
    "series_at h5 (refR_Y f) = series_at h (refR_Y f)"
    using v series_at_prefix [OF p2] series_at_prefix [OF p3] series_at_prefix [OF p4(1)]
      series_at_prefix [OF p5(1)] by simp_all
  have rp: "series_at h3 pRY_1 = series_at h2 pRY_1" "series_at h4 pRY_1 = series_at h2 pRY_1"
    "series_at h5 pRY_1 = series_at h2 pRY_1"
    using 1(3) series_at_prefix [OF 2(2)] series_at_prefix [OF p4(2)] series_at_prefix [OF p5(2)]
    by simp_all
  have run: "shadowIpwFunctional_Y_store params refW1 refW2 refR_Y refY f h
      = Inr ([np_average (series_at h3 o1), np_average (series_at h4 o2),
              np_average (series_at h5 o3), np_average (series_at h6 o4)], h6)"
    using g 0(1) 1(1) 2(1) 3(1) 4(1) 5(1)
    by (simp add: shadowIpwFunctional_Y_store_def and_then_simps Let_def)
  have val: "shadowIpwFunctional_Y params colW1 colW2 colR_Y colY (read_frame h f)
      = Inr [np_average (series_at h3 o1), np_average (series_at h4 o2),
              np_average (series_at h5 o3), np_average (series_at h6 o4)]"
    using g
    by (simp add: shadowIpwFunctional_Y_def and_then_simps Let_def col_read_frame [OF fh len]
        2(4) 3(4) 4(4) 5(4) 1(4) 0(4) val_ops r1 rk rp)
  show ?thesis using p6 run val by (auto simp: and_then_simps)
qed

lemma rootsPrediction_A_store_sim:
  assumes fh: "frame_holds h f A Y W1 W2 R_A R_Y"
    and len: "length Y = length A" "length W1 = length A" "length W2 = length A"
        "length R_A = length A" "length R_Y = length A"
  shows "\<exists>p h'. prefix h h' \<and> rootsPrediction_A_store roots refA f h
           = and_then (rootsPrediction_A roots colA (read_frame h f)) (\<lambda>v. Inr (p, h'))
         \<and> rootsPrediction_A roots colA (read_frame h f)
           = and_then (rootsPrediction_A roots colA (read_frame h f)) (\<lambda>v. Inr (series_at h' p))"
proof (cases "length roots < 2")
  case True
  then have "rootsPrediction_A_store roots refA f h = Inl IndexError"
    "rootsPrediction_A roots colA (read_frame h f) = Inl IndexError"
    unfolding rootsPrediction_A_store_def rootsPrediction_A_def
    by (rule getitem_chain2_Inl)+
  then show ?thesis by (auto simp: and_then_simps)
next
  case False
  then have g: "getitem roots 0 = Inr (roots ! 0)" "getitem roots 1 = Inr (roots ! 1)"
    by (auto simp: getitem_def)
  note v = frame_holds_valid [OF fh]
  let ?p = "expit (roots ! 0)"
  let ?e1 = "xc_div ?p (xc_add ?p (x_mulc (xc_pow (roots ! 1) (refA f)) (np_sub (Fin 1) ?p)))"
  have "reads_below (length h) ?e1" using v by (simp add: reads_ops)
  then obtain p h1 where 1: "eval ?e1 h = (p, h1)" "prefix h h1" "p < length h1"
    "series_at h1 p = val h ?e1"
    by (rule eval_step)
  have run: "rootsPrediction_A_store roots refA f h = Inr (p, h1)"
    using g 1(1) by (simp add: rootsPrediction_A_store_def and_then_simps Let_def)
  have val: "rootsPrediction_A roots colA (read_frame h f) = Inr (series_at h1 p)"
    using g by (simp add: rootsPrediction_A_def and_then_simps Let_def col_read_frame [OF fh len]
        1(4) val_ops)
  show ?thesis using 1(2) run val by (auto simp: and_then_simps)
qed

lemma rootsPrediction_Y_store_sim:
  assumes fh: "frame_holds h f A Y W1 W2 R_A R_Y"
    and len: "length Y = length A" "length W1 = length A" "length W2 = length A"
        "length R_A = length A" "length R_Y = length A"
  shows "\<exists>p h'. prefix h h' \<and> rootsPrediction_Y_store roots refW2 refY f h
           = and_then (rootsPrediction_Y roots colW2 colY (read_frame h f)) (\<lambda>v. Inr (p, h'))
         \<and> rootsPrediction_Y roots colW2 colY (read_frame h f)
           = and_then (rootsPrediction_Y roots colW2 colY (read_frame h f)) (\<lambda>v. Inr (series_at h' p))"
proof (cases "length roots < 4")
  case True
  then have "rootsPrediction_Y_store roots refW2 refY f h = Inl IndexError"
    "rootsPrediction_Y roots colW2 colY (read_frame h f) = Inl IndexError"
    unfolding rootsPrediction_Y_store_def rootsPrediction_Y_def
    by (rule getitem_chain4_Inl)+
  then show ?thesis by (auto simp: and_then_simps)
next
  case False
  then have g: "getitem roots 0 = Inr (roots ! 0)" "getitem roots 1 = Inr (roots ! 1)"
    "getitem roots 2 = Inr (roots ! 2)" "getitem roots 3 = Inr (roots ! 3)"
    by (auto simp: getitem_def)
  note v = frame_holds_valid [OF fh]
  let ?e0 = "x_expit (xc_add (roots ! 0) (xc_mul (roots ! 1) (Col (refW2 f))))"
  have "reads_below (length h) ?e0" using v by (simp add: reads_ops)
  then obtain q h1 where 0: "eval ?e0 h = (q, h1)" "prefix h h1" "q < length h1"
    "series_at h1 q = val h ?e0"
    by (rule eval_step)
  have l1: "length h \<le> length h1" using 0(2) by (rule prefix_length_le)
  let ?e1 = "x_div (Col q)
                 (x_add (Col q)
                    (x_mul (x_pow (xc_add (roots ! 2) (xc_mul (roots ! 3) (Col (refW2 f)))) (refY f))
                           (xc_sub (Fin 1) (Col q))))"
  have "reads_below (length h1) ?e1" using v l1 0(3) by (simp add: reads_ops)
  then obtain p h2 where 1: "eval ?e1 h1 = (p, h2)" "prefix h1 h2" "p < length h2"
    "series_at h2 p = val h1 ?e1"
    by (rule eval_step)
  have p2: "prefix h h2" using 0(2) 1(2) by (rule prefix_order.trans)
  have r1: "series_at h1 (refW2 f) = series_at h (refW2 f)" "ints_at h1 (refY f) = ints_at h (refY f)"
    using v 0(2) by (simp_all add: series_at_prefix ints_at_prefix)
  have run: "rootsPrediction_Y_store roots refW2 refY f h = Inr (p, h2)"
    using g 0(1) 1(1) by (simp add: rootsPrediction_Y_store_def and_then_simps Let_def)
  have val: "rootsPrediction_Y roots colW2 colY (read_frame h f) = Inr (series_at h2 p)"
    using g by (simp add: rootsPrediction_Y_def and_then_simps Let_def col_read_frame [OF fh len]
        1(4) 0(4) val_ops r1)
  show ?thesis using p2 run val by (auto simp: and_then_simps)
qed

lemma frame_unchanged:
  assumes "frame_holds h f A Y W1 W2 R_A R_Y" "prefix h h'"
  shows "read_frame h' f = read_frame h f"
  using frame_holds_valid [OF assms(1)] assms(2) by (simp add: read_frame_prefix)

text \<open>
  C10: datasets are not modified after generation. Deriving the partial dataset leaves every
  object of the full dataset as it was (lines 43 to 53 in the store, whether or not
  \<open>pd.DataFrame\<close> copies its arrays; only the two copies made by \<open>.copy()\<close> are written to),
  and evaluating a residual function or a prediction function on a frame of the store
  returns what the value model returns and a store that extends the old one: the frame
  passed to it reads the same rows afterwards.
\<close>

theorem datasets_not_modified:
  "(h0 ! a = IntBuf A0 \<and> h0 ! y = IntBuf Y0 \<and> h0 ! w1 = FloatBuf W10 \<and> h0 ! w2 = FloatBuf W20
      \<and> h0 ! ra = IntBuf R_A0 \<and> h0 ! ry = IntBuf R_Y0
      \<and> a < length h0 \<and> y < length h0 \<and> w1 < length h0 \<and> w2 < length h0
      \<and> ra < length h0 \<and> ry < length h0
      \<and> make_frames_store cp a y w1 w2 ra ry h0 = Inr ((full_data, partial_data), h0')
    \<longrightarrow> (\<exists>h1. DataFrame_refs cp a y w1 w2 ra ry h0 = Inr (full_data, h1)
          \<and> prefix h0 h1 \<and> prefix h1 h0'
          \<and> read_frame h0' full_data = read_frame h1 full_data
          \<and> make_frames A0 Y0 W10 W20 R_A0 R_Y0
               = Inr (read_frame h0' full_data, read_frame h0' partial_data)))
   \<and> (frame_holds h f A Y W1 W2 R_A R_Y
      \<and> length Y = length A \<and> length W1 = length A \<and> length W2 = length A
      \<and> length R_A = length A \<and> length R_Y = length A
    \<longrightarrow> (\<exists>h'. prefix h h' \<and> read_frame h' f = read_frame h f
            \<and> shadowIpwFunctional_A_store params refW1 refR_A refA f h
               = and_then (shadowIpwFunctional_A params colW1 colR_A colA (read_frame h f))
                   (\<lambda>v. Inr (v, h')))
      \<and> (\<exists>h'. prefix h h' \<and> read_frame h' f = read_frame h f
            \<and> shadowIpwFunctional_Y_store params refW1 refW2 refR_Y refY f h
               = and_then (shadowIpwFunctional_Y params colW1 colW2 colR_Y colY (read_frame h f))
                   (\<lambda>v. Inr (v, h')))
      \<and> (\<exists>p h'. prefix h h' \<and> read_frame h' f = read_frame h f
            \<and> rootsPrediction_A_store params refA f h
               = and_then (rootsPrediction_A params colA (read_frame h f)) (\<lambda>v. Inr (p, h'))
            \<and> rootsPrediction_A params colA (read_frame h f)
               = and_then (rootsPrediction_A params colA (read_frame h f))
                   (\<lambda>v. Inr (series_at h' p)))
      \<and> (\<exists>p h'. prefix h h' \<and> read_frame h' f = read_frame h f
            \<and> rootsPrediction_Y_store params refW2 refY f h
               = and_then (rootsPrediction_Y params colW2 colY (read_frame h f)) (\<lambda>v. Inr (p, h'))
            \<and> rootsPrediction_Y params colW2 colY (read_frame h f)
               = and_then (rootsPrediction_Y params colW2 colY (read_frame h f))
                   (\<lambda>v. Inr (series_at h' p))))"
proof (intro conjI impI)
  assume "h0 ! a = IntBuf A0 \<and> h0 ! y = IntBuf Y0 \<and> h0 ! w1 = FloatBuf W10 \<and> h0 ! w2 = FloatBuf W20
      \<and> h0 ! ra = IntBuf R_A0 \<and> h0 ! ry = IntBuf R_Y0
      \<and> a < length h0 \<and> y < length h0 \<and> w1 < length h0 \<and> w2 < length h0
      \<and> ra < length h0 \<and> ry < length h0
      \<and> make_frames_store cp a y w1 w2 ra ry h0 = Inr ((full_data, partial_data), h0')"
  then show "\<exists>h1. DataFrame_refs cp a y w1 w2 ra ry h0 = Inr (full_data, h1)
          \<and> prefix h0 h1 \<and> prefix h1 h0'
          \<and> read_frame h0' full_data = read_frame h1 full_data
          \<and> make_frames A0 Y0 W10 W20 R_A0 R_Y0
               = Inr (read_frame h0' full_data, read_frame h0' partial_data)"
    using make_frames_store_keeps_full [of h0 a A0 y Y0 w1 W10 w2 W20 ra R_A0 ry R_Y0 cp
        full_data partial_data h0']
    by blast
next
  assume H: "frame_holds h f A Y W1 W2 R_A R_Y
      \<and> length Y = length A \<and> length W1 = length A \<and> length W2 = length A
      \<and> length R_A = length A \<and> length R_Y = length A"
  then have fh: "frame_holds h f A Y W1 W2 R_A R_Y"
    and len: "length Y = length A" "length W1 = length A" "length W2 = length A"
        "length R_A = length A" "length R_Y = length A"
    by simp_all
  show "\<exists>h'. prefix h h' \<and> read_frame h' f = read_frame h f
            \<and> shadowIpwFunctional_A_store params refW1 refR_A refA f h
               = and_then (shadowIpwFunctional_A params colW1 colR_A colA (read_frame h f))
                   (\<lambda>v. Inr (v, h'))"
    using shadowIpwFunctional_A_store_sim [OF fh len, of params] frame_unchanged [OF fh]
    by blast
  show "\<exists>h'. prefix h h' \<and> read_frame h' f = read_frame h f
            \<and> shadowIpwFunctional_Y_store params refW1 refW2 refR_Y refY f h
               = and_then (shadowIpwFunctional_Y params colW1 colW2 colR_Y colY (read_frame h f))
                   (\<lambda>v. Inr (v, h'))"
    using shadowIpwFunctional_Y_store_sim [OF fh len, of params] frame_unchanged [OF fh]
    by blast
  show "\<exists>p h'. prefix h h' \<and> read_frame h' f = read_frame h f
            \<and> rootsPrediction_A_store params refA f h
               = and_then (rootsPrediction_A params colA (read_frame h f)) (\<lambda>v. Inr (p, h'))
            \<and> rootsPrediction_A params colA (read_frame h f)
               = and_then (rootsPrediction_A params colA (read_frame h f))
                   (\<lambda>v. Inr (series_at h' p))"
    using rootsPrediction_A_store_sim [OF fh len, of params] frame_unchanged [OF fh]
    by blast
  show "\<exists>p h'. prefix h h' \<and> read_frame h' f = read_frame h f
            \<and> rootsPrediction_Y_store params refW2 refY f h
               = and_then (rootsPrediction_Y params colW2 colY (read_frame h f)) (\<lambda>v. Inr (p, h'))
            \<and> rootsPrediction_Y params colW2 colY (read_frame h f)
               = and_then (rootsPrediction_Y params colW2 colY (read_frame h f))
                   (\<lambda>v. Inr (series_at h' p))"
    using rootsPrediction_Y_store_sim [OF fh len, of params] frame_unchanged [OF fh]
    by blast
qed

theorem datasets_not_modified_witness:
  "(\<exists>h1. DataFrame_refs True 0 1 2 3 4 5 toy_store = Inr (toy_full_ref, h1)
      \<and> prefix toy_store h1 \<and> prefix h1 toy_store_final
      \<and> read_frame toy_store_final toy_full_ref = read_frame h1 toy_full_ref
      \<and> make_frames [0, 1] [1, 0] [Fin 0, Fin 1] [Fin 2, Fin (22 / 5)] [0, 1] [1, 0]
           = Inr (read_frame toy_store_final toy_full_ref, read_frame toy_store_final toy_partial_ref))
   \<and> (\<exists>h'. prefix toy_store_final h'
      \<and> read_frame h' toy_partial_ref = read_frame toy_store_final toy_partial_ref
      \<and> shadowIpwFunctional_A_store [Fin 0, Fin 2, Fin 1, Fin 1] refW1 refR_A refA toy_partial_ref
           toy_store_final
         = and_then (shadowIpwFunctional_A [Fin 0, Fin 2, Fin 1, Fin 1] colW1 colR_A colA
                       (read_frame toy_store_final toy_partial_ref)) (\<lambda>v. Inr (v, h')))
   \<and> (\<exists>h'. prefix toy_store_final h'
      \<and> read_frame h' toy_partial_ref = read_frame toy_store_final toy_partial_ref
      \<and> shadowIpwFunctional_Y_store [Fin 0, Fin 2, Fin 1, Fin 1] refW1 refW2 refR_Y refY toy_partial_ref
           toy_store_final
         = and_then (shadowIpwFunctional_Y [Fin 0, Fin 2, Fin 1, Fin 1] colW1 colW2 colR_Y colY
                       (read_frame toy_store_final toy_partial_ref)) (\<lambda>v. Inr (v, h')))"
proof -
  have a: "toy_store ! 0 = IntBuf [0, 1] \<and> toy_store ! 1 = IntBuf [1, 0]
      \<and> toy_store ! 2 = FloatBuf [Fin 0, Fin 1] \<and> toy_store ! 3 = FloatBuf [Fin 2, Fin (22 / 5)]
      \<and> toy_store ! 4 = IntBuf [0, 1] \<and> toy_store ! 5 = IntBuf [1, 0]
      \<and> 0 < length toy_store \<and> 1 < length toy_store \<and> 2 < length toy_store \<and> 3 < length toy_store
      \<and> 4 < length toy_store \<and> 5 < length toy_store
      \<and> make_frames_store True 0 1 2 3 4 5 toy_store
          = Inr ((toy_full_ref, toy_partial_ref), toy_store_final)"
    using toy_store_run by (simp add: toy_store_def)
  have b: "frame_holds toy_store_final toy_partial_ref [- 1, 1] [1, - 1] [Fin 0, Fin 1]
        [Fin 2, Fin (22 / 5)] [0, 1] [1, 0]
      \<and> length [1, - 1 :: int] = length [- 1, 1 :: int]
      \<and> length [Fin 0, Fin 1] = length [- 1, 1 :: int]
      \<and> length [Fin 2, Fin (22 / 5)] = length [- 1, 1 :: int]
      \<and> length [0, 1 :: int] = length [- 1, 1 :: int]
      \<and> length [1, 0 :: int] = length [- 1, 1 :: int]"
    by (simp add: frame_holds_def toy_store_final_def toy_store_full_def toy_store_def
        toy_partial_ref_def)
  from datasets_not_modified [of toy_store 0 "[0, 1]" 1 "[1, 0]" 2 "[Fin 0, Fin 1]" 3
      "[Fin 2, Fin (22 / 5)]" 4 "[0, 1]" 5 "[1, 0]" True toy_full_ref toy_partial_ref toy_store_final
      toy_store_final toy_partial_ref "[- 1, 1]" "[1, - 1]" "[Fin 0, Fin 1]" "[Fin 2, Fin (22 / 5)]"
      "[0, 1]" "[1, 0]" "[Fin 0, Fin 2, Fin 1, Fin 1]"] a b
  show ?thesis by blast
qed

end
